theory Spec2Isabelle
  imports Main "HOL-Library.Sublist"
begin

section \<open>Data model\<close>

text \<open>
  The program is a script over two pandas data frames read from spreadsheets.
  A cell is a scalar of a sheet: a missing value (\<open>NaN\<close>, what an empty spreadsheet cell
  reads as, or Python's \<open>None\<close>), an integer, or a text. A series is a list of cells, a
  frame is its list of column labels and its rows in order; a row is read by column
  position, and a row shorter than the header reads as missing there. Row labels are not
  part of the model: the script selects rows with masks built from the frame itself, drops
  the labels in \<open>add_serial_number\<close> and never writes them out.

  A text is a Python \<open>str\<close>: a list of Unicode code points, each an integer.
  \<open>lit\<close> gives the text of an ASCII literal. Column labels and messages are only compared
  and concatenated, and stay Isabelle strings.
\<close>

type_synonym str = "int list"

definition lit :: "string \<Rightarrow> str" where
  "lit s = map of_char s"

datatype cell = NaN | NoneV | IntV int | Text str

type_synonym series = "cell list"

record dataframe =
  columns :: "string list"
  rows :: "cell list list"

datatype error = Stop string | KeyError string | ValueError string

definition NAME_COL :: string where
  "NAME_COL = ''Full Name As Per NRIC''"

definition SERIAL_COL :: string where
  "SERIAL_COL = ''S/N''"

section \<open>Python text operations\<close>

text \<open>\<open>str.isspace\<close> of one code point, which is also the class \<open>\s\<close> of \<open>re\<close> on text
  and what \<open>str.strip()\<close> removes: the 29 whitespace code points of Unicode, from tab to
  carriage return, the separators 28 to 31, the space, NEL, the no-break space and the
  spaces and separators beyond Latin-1.\<close>

definition isspace :: "int \<Rightarrow> bool" where
  "isspace c = ((9 \<le> c \<and> c \<le> 13) \<or> (28 \<le> c \<and> c \<le> 32) \<or> c = 133 \<or> c = 160 \<or>
                c = 5760 \<or> (8192 \<le> c \<and> c \<le> 8202) \<or> c = 8232 \<or> c = 8233 \<or>
                c = 8239 \<or> c = 8287 \<or> c = 12288)"

text \<open>\<open>str.upper()\<close> maps every code point by itself to one, two or three code points
  (\<open>223\<close>, the sharp s, gives \<open>SS\<close>). The table below holds every code point from 128 on
  that \<open>str.upper()\<close> changes, with what it becomes (Python 3.11, Unicode 14), by blocks
  of 256 code points and, in a block, by runs of eight code points; below 128 only the
  letters \<open>a\<close> to \<open>z\<close> change.\<close>

definition upper_block_0 :: "int \<Rightarrow> (int \<times> int list) list" where
  "upper_block_0 j =
     (if j = 22 then
        [(181, [924])]
      else if j = 27 then
        [(223, [83, 83])]
      else if j = 28 then
        [(224, [192]), (225, [193]), (226, [194]), (227, [195]), (228, [196]), (229,
         [197]), (230, [198]), (231, [199])]
      else if j = 29 then
        [(232, [200]), (233, [201]), (234, [202]), (235, [203]), (236, [204]), (237,
         [205]), (238, [206]), (239, [207])]
      else if j = 30 then
        [(240, [208]), (241, [209]), (242, [210]), (243, [211]), (244, [212]), (245,
         [213]), (246, [214])]
      else if j = 31 then
        [(248, [216]), (249, [217]), (250, [218]), (251, [219]), (252, [220]), (253,
         [221]), (254, [222]), (255, [376])]
      else [])"

definition upper_block_1 :: "int \<Rightarrow> (int \<times> int list) list" where
  "upper_block_1 j =
     (if j = 32 then
        [(257, [256]), (259, [258]), (261, [260]), (263, [262])]
      else if j = 33 then
        [(265, [264]), (267, [266]), (269, [268]), (271, [270])]
      else if j = 34 then
        [(273, [272]), (275, [274]), (277, [276]), (279, [278])]
      else if j = 35 then
        [(281, [280]), (283, [282]), (285, [284]), (287, [286])]
      else if j = 36 then
        [(289, [288]), (291, [290]), (293, [292]), (295, [294])]
      else if j = 37 then
        [(297, [296]), (299, [298]), (301, [300]), (303, [302])]
      else if j = 38 then
        [(305, [73]), (307, [306]), (309, [308]), (311, [310])]
      else if j = 39 then
        [(314, [313]), (316, [315]), (318, [317])]
      else if j = 40 then
        [(320, [319]), (322, [321]), (324, [323]), (326, [325])]
      else if j = 41 then
        [(328, [327]), (329, [700, 78]), (331, [330]), (333, [332]), (335, [334])]
      else if j = 42 then
        [(337, [336]), (339, [338]), (341, [340]), (343, [342])]
      else if j = 43 then
        [(345, [344]), (347, [346]), (349, [348]), (351, [350])]
      else if j = 44 then
        [(353, [352]), (355, [354]), (357, [356]), (359, [358])]
      else if j = 45 then
        [(361, [360]), (363, [362]), (365, [364]), (367, [366])]
      else if j = 46 then
        [(369, [368]), (371, [370]), (373, [372]), (375, [374])]
      else if j = 47 then
        [(378, [377]), (380, [379]), (382, [381]), (383, [83])]
      else if j = 48 then
        [(384, [579]), (387, [386]), (389, [388])]
      else if j = 49 then
        [(392, [391]), (396, [395])]
      else if j = 50 then
        [(402, [401]), (405, [502])]
      else if j = 51 then
        [(409, [408]), (410, [573]), (414, [544])]
      else if j = 52 then
        [(417, [416]), (419, [418]), (421, [420])]
      else if j = 53 then
        [(424, [423]), (429, [428])]
      else if j = 54 then
        [(432, [431]), (436, [435]), (438, [437])]
      else if j = 55 then
        [(441, [440]), (445, [444]), (447, [503])]
      else if j = 56 then
        [(453, [452]), (454, [452])]
      else if j = 57 then
        [(456, [455]), (457, [455]), (459, [458]), (460, [458]), (462, [461])]
      else if j = 58 then
        [(464, [463]), (466, [465]), (468, [467]), (470, [469])]
      else if j = 59 then
        [(472, [471]), (474, [473]), (476, [475]), (477, [398]), (479, [478])]
      else if j = 60 then
        [(481, [480]), (483, [482]), (485, [484]), (487, [486])]
      else if j = 61 then
        [(489, [488]), (491, [490]), (493, [492]), (495, [494])]
      else if j = 62 then
        [(496, [74, 780]), (498, [497]), (499, [497]), (501, [500])]
      else if j = 63 then
        [(505, [504]), (507, [506]), (509, [508]), (511, [510])]
      else [])"

definition upper_block_2 :: "int \<Rightarrow> (int \<times> int list) list" where
  "upper_block_2 j =
     (if j = 64 then
        [(513, [512]), (515, [514]), (517, [516]), (519, [518])]
      else if j = 65 then
        [(521, [520]), (523, [522]), (525, [524]), (527, [526])]
      else if j = 66 then
        [(529, [528]), (531, [530]), (533, [532]), (535, [534])]
      else if j = 67 then
        [(537, [536]), (539, [538]), (541, [540]), (543, [542])]
      else if j = 68 then
        [(547, [546]), (549, [548]), (551, [550])]
      else if j = 69 then
        [(553, [552]), (555, [554]), (557, [556]), (559, [558])]
      else if j = 70 then
        [(561, [560]), (563, [562])]
      else if j = 71 then
        [(572, [571]), (575, [11390])]
      else if j = 72 then
        [(576, [11391]), (578, [577]), (583, [582])]
      else if j = 73 then
        [(585, [584]), (587, [586]), (589, [588]), (591, [590])]
      else if j = 74 then
        [(592, [11375]), (593, [11373]), (594, [11376]), (595, [385]), (596, [390]),
         (598, [393]), (599, [394])]
      else if j = 75 then
        [(601, [399]), (603, [400]), (604, [42923])]
      else if j = 76 then
        [(608, [403]), (609, [42924]), (611, [404]), (613, [42893]), (614, [42922])]
      else if j = 77 then
        [(616, [407]), (617, [406]), (618, [42926]), (619, [11362]), (620, [42925]),
         (623, [412])]
      else if j = 78 then
        [(625, [11374]), (626, [413]), (629, [415])]
      else if j = 79 then
        [(637, [11364])]
      else if j = 80 then
        [(640, [422]), (642, [42949]), (643, [425]), (647, [42929])]
      else if j = 81 then
        [(648, [430]), (649, [580]), (650, [433]), (651, [434]), (652, [581])]
      else if j = 82 then
        [(658, [439])]
      else if j = 83 then
        [(669, [42930]), (670, [42928])]
      else [])"

definition upper_block_3 :: "int \<Rightarrow> (int \<times> int list) list" where
  "upper_block_3 j =
     (if j = 104 then
        [(837, [921])]
      else if j = 110 then
        [(881, [880]), (883, [882]), (887, [886])]
      else if j = 111 then
        [(891, [1021]), (892, [1022]), (893, [1023])]
      else if j = 114 then
        [(912, [921, 776, 769])]
      else if j = 117 then
        [(940, [902]), (941, [904]), (942, [905]), (943, [906])]
      else if j = 118 then
        [(944, [933, 776, 769]), (945, [913]), (946, [914]), (947, [915]), (948, [916]),
         (949, [917]), (950, [918]), (951, [919])]
      else if j = 119 then
        [(952, [920]), (953, [921]), (954, [922]), (955, [923]), (956, [924]), (957,
         [925]), (958, [926]), (959, [927])]
      else if j = 120 then
        [(960, [928]), (961, [929]), (962, [931]), (963, [931]), (964, [932]), (965,
         [933]), (966, [934]), (967, [935])]
      else if j = 121 then
        [(968, [936]), (969, [937]), (970, [938]), (971, [939]), (972, [908]), (973,
         [910]), (974, [911])]
      else if j = 122 then
        [(976, [914]), (977, [920]), (981, [934]), (982, [928]), (983, [975])]
      else if j = 123 then
        [(985, [984]), (987, [986]), (989, [988]), (991, [990])]
      else if j = 124 then
        [(993, [992]), (995, [994]), (997, [996]), (999, [998])]
      else if j = 125 then
        [(1001, [1000]), (1003, [1002]), (1005, [1004]), (1007, [1006])]
      else if j = 126 then
        [(1008, [922]), (1009, [929]), (1010, [1017]), (1011, [895]), (1013, [917])]
      else if j = 127 then
        [(1016, [1015]), (1019, [1018])]
      else [])"

definition upper_block_4 :: "int \<Rightarrow> (int \<times> int list) list" where
  "upper_block_4 j =
     (if j = 134 then
        [(1072, [1040]), (1073, [1041]), (1074, [1042]), (1075, [1043]), (1076, [1044]),
         (1077, [1045]), (1078, [1046]), (1079, [1047])]
      else if j = 135 then
        [(1080, [1048]), (1081, [1049]), (1082, [1050]), (1083, [1051]), (1084, [1052]),
         (1085, [1053]), (1086, [1054]), (1087, [1055])]
      else if j = 136 then
        [(1088, [1056]), (1089, [1057]), (1090, [1058]), (1091, [1059]), (1092, [1060]),
         (1093, [1061]), (1094, [1062]), (1095, [1063])]
      else if j = 137 then
        [(1096, [1064]), (1097, [1065]), (1098, [1066]), (1099, [1067]), (1100, [1068]),
         (1101, [1069]), (1102, [1070]), (1103, [1071])]
      else if j = 138 then
        [(1104, [1024]), (1105, [1025]), (1106, [1026]), (1107, [1027]), (1108, [1028]),
         (1109, [1029]), (1110, [1030]), (1111, [1031])]
      else if j = 139 then
        [(1112, [1032]), (1113, [1033]), (1114, [1034]), (1115, [1035]), (1116, [1036]),
         (1117, [1037]), (1118, [1038]), (1119, [1039])]
      else if j = 140 then
        [(1121, [1120]), (1123, [1122]), (1125, [1124]), (1127, [1126])]
      else if j = 141 then
        [(1129, [1128]), (1131, [1130]), (1133, [1132]), (1135, [1134])]
      else if j = 142 then
        [(1137, [1136]), (1139, [1138]), (1141, [1140]), (1143, [1142])]
      else if j = 143 then
        [(1145, [1144]), (1147, [1146]), (1149, [1148]), (1151, [1150])]
      else if j = 144 then
        [(1153, [1152])]
      else if j = 145 then
        [(1163, [1162]), (1165, [1164]), (1167, [1166])]
      else if j = 146 then
        [(1169, [1168]), (1171, [1170]), (1173, [1172]), (1175, [1174])]
      else if j = 147 then
        [(1177, [1176]), (1179, [1178]), (1181, [1180]), (1183, [1182])]
      else if j = 148 then
        [(1185, [1184]), (1187, [1186]), (1189, [1188]), (1191, [1190])]
      else if j = 149 then
        [(1193, [1192]), (1195, [1194]), (1197, [1196]), (1199, [1198])]
      else if j = 150 then
        [(1201, [1200]), (1203, [1202]), (1205, [1204]), (1207, [1206])]
      else if j = 151 then
        [(1209, [1208]), (1211, [1210]), (1213, [1212]), (1215, [1214])]
      else if j = 152 then
        [(1218, [1217]), (1220, [1219]), (1222, [1221])]
      else if j = 153 then
        [(1224, [1223]), (1226, [1225]), (1228, [1227]), (1230, [1229]), (1231, [1216])]
      else if j = 154 then
        [(1233, [1232]), (1235, [1234]), (1237, [1236]), (1239, [1238])]
      else if j = 155 then
        [(1241, [1240]), (1243, [1242]), (1245, [1244]), (1247, [1246])]
      else if j = 156 then
        [(1249, [1248]), (1251, [1250]), (1253, [1252]), (1255, [1254])]
      else if j = 157 then
        [(1257, [1256]), (1259, [1258]), (1261, [1260]), (1263, [1262])]
      else if j = 158 then
        [(1265, [1264]), (1267, [1266]), (1269, [1268]), (1271, [1270])]
      else if j = 159 then
        [(1273, [1272]), (1275, [1274]), (1277, [1276]), (1279, [1278])]
      else [])"

definition upper_block_5 :: "int \<Rightarrow> (int \<times> int list) list" where
  "upper_block_5 j =
     (if j = 160 then
        [(1281, [1280]), (1283, [1282]), (1285, [1284]), (1287, [1286])]
      else if j = 161 then
        [(1289, [1288]), (1291, [1290]), (1293, [1292]), (1295, [1294])]
      else if j = 162 then
        [(1297, [1296]), (1299, [1298]), (1301, [1300]), (1303, [1302])]
      else if j = 163 then
        [(1305, [1304]), (1307, [1306]), (1309, [1308]), (1311, [1310])]
      else if j = 164 then
        [(1313, [1312]), (1315, [1314]), (1317, [1316]), (1319, [1318])]
      else if j = 165 then
        [(1321, [1320]), (1323, [1322]), (1325, [1324]), (1327, [1326])]
      else if j = 172 then
        [(1377, [1329]), (1378, [1330]), (1379, [1331]), (1380, [1332]), (1381, [1333]),
         (1382, [1334]), (1383, [1335])]
      else if j = 173 then
        [(1384, [1336]), (1385, [1337]), (1386, [1338]), (1387, [1339]), (1388, [1340]),
         (1389, [1341]), (1390, [1342]), (1391, [1343])]
      else if j = 174 then
        [(1392, [1344]), (1393, [1345]), (1394, [1346]), (1395, [1347]), (1396, [1348]),
         (1397, [1349]), (1398, [1350]), (1399, [1351])]
      else if j = 175 then
        [(1400, [1352]), (1401, [1353]), (1402, [1354]), (1403, [1355]), (1404, [1356]),
         (1405, [1357]), (1406, [1358]), (1407, [1359])]
      else if j = 176 then
        [(1408, [1360]), (1409, [1361]), (1410, [1362]), (1411, [1363]), (1412, [1364]),
         (1413, [1365]), (1414, [1366]), (1415, [1333, 1362])]
      else [])"

definition upper_block_16 :: "int \<Rightarrow> (int \<times> int list) list" where
  "upper_block_16 j =
     (if j = 538 then
        [(4304, [7312]), (4305, [7313]), (4306, [7314]), (4307, [7315]), (4308, [7316]),
         (4309, [7317]), (4310, [7318]), (4311, [7319])]
      else if j = 539 then
        [(4312, [7320]), (4313, [7321]), (4314, [7322]), (4315, [7323]), (4316, [7324]),
         (4317, [7325]), (4318, [7326]), (4319, [7327])]
      else if j = 540 then
        [(4320, [7328]), (4321, [7329]), (4322, [7330]), (4323, [7331]), (4324, [7332]),
         (4325, [7333]), (4326, [7334]), (4327, [7335])]
      else if j = 541 then
        [(4328, [7336]), (4329, [7337]), (4330, [7338]), (4331, [7339]), (4332, [7340]),
         (4333, [7341]), (4334, [7342]), (4335, [7343])]
      else if j = 542 then
        [(4336, [7344]), (4337, [7345]), (4338, [7346]), (4339, [7347]), (4340, [7348]),
         (4341, [7349]), (4342, [7350]), (4343, [7351])]
      else if j = 543 then
        [(4344, [7352]), (4345, [7353]), (4346, [7354]), (4349, [7357]), (4350, [7358]),
         (4351, [7359])]
      else [])"

definition upper_block_19 :: "int \<Rightarrow> (int \<times> int list) list" where
  "upper_block_19 j =
     (if j = 639 then
        [(5112, [5104]), (5113, [5105]), (5114, [5106]), (5115, [5107]), (5116, [5108]),
         (5117, [5109])]
      else [])"

definition upper_block_28 :: "int \<Rightarrow> (int \<times> int list) list" where
  "upper_block_28 j =
     (if j = 912 then
        [(7296, [1042]), (7297, [1044]), (7298, [1054]), (7299, [1057]), (7300, [1058]),
         (7301, [1058]), (7302, [1066]), (7303, [1122])]
      else if j = 913 then
        [(7304, [42570])]
      else [])"

definition upper_block_29 :: "int \<Rightarrow> (int \<times> int list) list" where
  "upper_block_29 j =
     (if j = 943 then
        [(7545, [42877]), (7549, [11363])]
      else if j = 945 then
        [(7566, [42950])]
      else [])"

definition upper_block_30 :: "int \<Rightarrow> (int \<times> int list) list" where
  "upper_block_30 j =
     (if j = 960 then
        [(7681, [7680]), (7683, [7682]), (7685, [7684]), (7687, [7686])]
      else if j = 961 then
        [(7689, [7688]), (7691, [7690]), (7693, [7692]), (7695, [7694])]
      else if j = 962 then
        [(7697, [7696]), (7699, [7698]), (7701, [7700]), (7703, [7702])]
      else if j = 963 then
        [(7705, [7704]), (7707, [7706]), (7709, [7708]), (7711, [7710])]
      else if j = 964 then
        [(7713, [7712]), (7715, [7714]), (7717, [7716]), (7719, [7718])]
      else if j = 965 then
        [(7721, [7720]), (7723, [7722]), (7725, [7724]), (7727, [7726])]
      else if j = 966 then
        [(7729, [7728]), (7731, [7730]), (7733, [7732]), (7735, [7734])]
      else if j = 967 then
        [(7737, [7736]), (7739, [7738]), (7741, [7740]), (7743, [7742])]
      else if j = 968 then
        [(7745, [7744]), (7747, [7746]), (7749, [7748]), (7751, [7750])]
      else if j = 969 then
        [(7753, [7752]), (7755, [7754]), (7757, [7756]), (7759, [7758])]
      else if j = 970 then
        [(7761, [7760]), (7763, [7762]), (7765, [7764]), (7767, [7766])]
      else if j = 971 then
        [(7769, [7768]), (7771, [7770]), (7773, [7772]), (7775, [7774])]
      else if j = 972 then
        [(7777, [7776]), (7779, [7778]), (7781, [7780]), (7783, [7782])]
      else if j = 973 then
        [(7785, [7784]), (7787, [7786]), (7789, [7788]), (7791, [7790])]
      else if j = 974 then
        [(7793, [7792]), (7795, [7794]), (7797, [7796]), (7799, [7798])]
      else if j = 975 then
        [(7801, [7800]), (7803, [7802]), (7805, [7804]), (7807, [7806])]
      else if j = 976 then
        [(7809, [7808]), (7811, [7810]), (7813, [7812]), (7815, [7814])]
      else if j = 977 then
        [(7817, [7816]), (7819, [7818]), (7821, [7820]), (7823, [7822])]
      else if j = 978 then
        [(7825, [7824]), (7827, [7826]), (7829, [7828]), (7830, [72, 817]), (7831, [84,
         776])]
      else if j = 979 then
        [(7832, [87, 778]), (7833, [89, 778]), (7834, [65, 702]), (7835, [7776])]
      else if j = 980 then
        [(7841, [7840]), (7843, [7842]), (7845, [7844]), (7847, [7846])]
      else if j = 981 then
        [(7849, [7848]), (7851, [7850]), (7853, [7852]), (7855, [7854])]
      else if j = 982 then
        [(7857, [7856]), (7859, [7858]), (7861, [7860]), (7863, [7862])]
      else if j = 983 then
        [(7865, [7864]), (7867, [7866]), (7869, [7868]), (7871, [7870])]
      else if j = 984 then
        [(7873, [7872]), (7875, [7874]), (7877, [7876]), (7879, [7878])]
      else if j = 985 then
        [(7881, [7880]), (7883, [7882]), (7885, [7884]), (7887, [7886])]
      else if j = 986 then
        [(7889, [7888]), (7891, [7890]), (7893, [7892]), (7895, [7894])]
      else if j = 987 then
        [(7897, [7896]), (7899, [7898]), (7901, [7900]), (7903, [7902])]
      else if j = 988 then
        [(7905, [7904]), (7907, [7906]), (7909, [7908]), (7911, [7910])]
      else if j = 989 then
        [(7913, [7912]), (7915, [7914]), (7917, [7916]), (7919, [7918])]
      else if j = 990 then
        [(7921, [7920]), (7923, [7922]), (7925, [7924]), (7927, [7926])]
      else if j = 991 then
        [(7929, [7928]), (7931, [7930]), (7933, [7932]), (7935, [7934])]
      else [])"

definition upper_block_31 :: "int \<Rightarrow> (int \<times> int list) list" where
  "upper_block_31 j =
     (if j = 992 then
        [(7936, [7944]), (7937, [7945]), (7938, [7946]), (7939, [7947]), (7940, [7948]),
         (7941, [7949]), (7942, [7950]), (7943, [7951])]
      else if j = 994 then
        [(7952, [7960]), (7953, [7961]), (7954, [7962]), (7955, [7963]), (7956, [7964]),
         (7957, [7965])]
      else if j = 996 then
        [(7968, [7976]), (7969, [7977]), (7970, [7978]), (7971, [7979]), (7972, [7980]),
         (7973, [7981]), (7974, [7982]), (7975, [7983])]
      else if j = 998 then
        [(7984, [7992]), (7985, [7993]), (7986, [7994]), (7987, [7995]), (7988, [7996]),
         (7989, [7997]), (7990, [7998]), (7991, [7999])]
      else if j = 1000 then
        [(8000, [8008]), (8001, [8009]), (8002, [8010]), (8003, [8011]), (8004, [8012]),
         (8005, [8013])]
      else if j = 1002 then
        [(8016, [933, 787]), (8017, [8025]), (8018, [933, 787, 768]), (8019, [8027]),
         (8020, [933, 787, 769]), (8021, [8029]), (8022, [933, 787, 834]), (8023,
         [8031])]
      else if j = 1004 then
        [(8032, [8040]), (8033, [8041]), (8034, [8042]), (8035, [8043]), (8036, [8044]),
         (8037, [8045]), (8038, [8046]), (8039, [8047])]
      else if j = 1006 then
        [(8048, [8122]), (8049, [8123]), (8050, [8136]), (8051, [8137]), (8052, [8138]),
         (8053, [8139]), (8054, [8154]), (8055, [8155])]
      else if j = 1007 then
        [(8056, [8184]), (8057, [8185]), (8058, [8170]), (8059, [8171]), (8060, [8186]),
         (8061, [8187])]
      else if j = 1008 then
        [(8064, [7944, 921]), (8065, [7945, 921]), (8066, [7946, 921]), (8067, [7947,
         921]), (8068, [7948, 921]), (8069, [7949, 921]), (8070, [7950, 921]), (8071,
         [7951, 921])]
      else if j = 1009 then
        [(8072, [7944, 921]), (8073, [7945, 921]), (8074, [7946, 921]), (8075, [7947,
         921]), (8076, [7948, 921]), (8077, [7949, 921]), (8078, [7950, 921]), (8079,
         [7951, 921])]
      else if j = 1010 then
        [(8080, [7976, 921]), (8081, [7977, 921]), (8082, [7978, 921]), (8083, [7979,
         921]), (8084, [7980, 921]), (8085, [7981, 921]), (8086, [7982, 921]), (8087,
         [7983, 921])]
      else if j = 1011 then
        [(8088, [7976, 921]), (8089, [7977, 921]), (8090, [7978, 921]), (8091, [7979,
         921]), (8092, [7980, 921]), (8093, [7981, 921]), (8094, [7982, 921]), (8095,
         [7983, 921])]
      else if j = 1012 then
        [(8096, [8040, 921]), (8097, [8041, 921]), (8098, [8042, 921]), (8099, [8043,
         921]), (8100, [8044, 921]), (8101, [8045, 921]), (8102, [8046, 921]), (8103,
         [8047, 921])]
      else if j = 1013 then
        [(8104, [8040, 921]), (8105, [8041, 921]), (8106, [8042, 921]), (8107, [8043,
         921]), (8108, [8044, 921]), (8109, [8045, 921]), (8110, [8046, 921]), (8111,
         [8047, 921])]
      else if j = 1014 then
        [(8112, [8120]), (8113, [8121]), (8114, [8122, 921]), (8115, [913, 921]), (8116,
         [902, 921]), (8118, [913, 834]), (8119, [913, 834, 921])]
      else if j = 1015 then
        [(8124, [913, 921]), (8126, [921])]
      else if j = 1016 then
        [(8130, [8138, 921]), (8131, [919, 921]), (8132, [905, 921]), (8134, [919,
         834]), (8135, [919, 834, 921])]
      else if j = 1017 then
        [(8140, [919, 921])]
      else if j = 1018 then
        [(8144, [8152]), (8145, [8153]), (8146, [921, 776, 768]), (8147, [921, 776,
         769]), (8150, [921, 834]), (8151, [921, 776, 834])]
      else if j = 1020 then
        [(8160, [8168]), (8161, [8169]), (8162, [933, 776, 768]), (8163, [933, 776,
         769]), (8164, [929, 787]), (8165, [8172]), (8166, [933, 834]), (8167, [933,
         776, 834])]
      else if j = 1022 then
        [(8178, [8186, 921]), (8179, [937, 921]), (8180, [911, 921]), (8182, [937,
         834]), (8183, [937, 834, 921])]
      else if j = 1023 then
        [(8188, [937, 921])]
      else [])"

definition upper_block_33 :: "int \<Rightarrow> (int \<times> int list) list" where
  "upper_block_33 j =
     (if j = 1065 then
        [(8526, [8498])]
      else if j = 1070 then
        [(8560, [8544]), (8561, [8545]), (8562, [8546]), (8563, [8547]), (8564, [8548]),
         (8565, [8549]), (8566, [8550]), (8567, [8551])]
      else if j = 1071 then
        [(8568, [8552]), (8569, [8553]), (8570, [8554]), (8571, [8555]), (8572, [8556]),
         (8573, [8557]), (8574, [8558]), (8575, [8559])]
      else if j = 1072 then
        [(8580, [8579])]
      else [])"

definition upper_block_36 :: "int \<Rightarrow> (int \<times> int list) list" where
  "upper_block_36 j =
     (if j = 1178 then
        [(9424, [9398]), (9425, [9399]), (9426, [9400]), (9427, [9401]), (9428, [9402]),
         (9429, [9403]), (9430, [9404]), (9431, [9405])]
      else if j = 1179 then
        [(9432, [9406]), (9433, [9407]), (9434, [9408]), (9435, [9409]), (9436, [9410]),
         (9437, [9411]), (9438, [9412]), (9439, [9413])]
      else if j = 1180 then
        [(9440, [9414]), (9441, [9415]), (9442, [9416]), (9443, [9417]), (9444, [9418]),
         (9445, [9419]), (9446, [9420]), (9447, [9421])]
      else if j = 1181 then
        [(9448, [9422]), (9449, [9423])]
      else [])"

definition upper_block_44 :: "int \<Rightarrow> (int \<times> int list) list" where
  "upper_block_44 j =
     (if j = 1414 then
        [(11312, [11264]), (11313, [11265]), (11314, [11266]), (11315, [11267]), (11316,
         [11268]), (11317, [11269]), (11318, [11270]), (11319, [11271])]
      else if j = 1415 then
        [(11320, [11272]), (11321, [11273]), (11322, [11274]), (11323, [11275]), (11324,
         [11276]), (11325, [11277]), (11326, [11278]), (11327, [11279])]
      else if j = 1416 then
        [(11328, [11280]), (11329, [11281]), (11330, [11282]), (11331, [11283]), (11332,
         [11284]), (11333, [11285]), (11334, [11286]), (11335, [11287])]
      else if j = 1417 then
        [(11336, [11288]), (11337, [11289]), (11338, [11290]), (11339, [11291]), (11340,
         [11292]), (11341, [11293]), (11342, [11294]), (11343, [11295])]
      else if j = 1418 then
        [(11344, [11296]), (11345, [11297]), (11346, [11298]), (11347, [11299]), (11348,
         [11300]), (11349, [11301]), (11350, [11302]), (11351, [11303])]
      else if j = 1419 then
        [(11352, [11304]), (11353, [11305]), (11354, [11306]), (11355, [11307]), (11356,
         [11308]), (11357, [11309]), (11358, [11310]), (11359, [11311])]
      else if j = 1420 then
        [(11361, [11360]), (11365, [570]), (11366, [574])]
      else if j = 1421 then
        [(11368, [11367]), (11370, [11369]), (11372, [11371])]
      else if j = 1422 then
        [(11379, [11378]), (11382, [11381])]
      else if j = 1424 then
        [(11393, [11392]), (11395, [11394]), (11397, [11396]), (11399, [11398])]
      else if j = 1425 then
        [(11401, [11400]), (11403, [11402]), (11405, [11404]), (11407, [11406])]
      else if j = 1426 then
        [(11409, [11408]), (11411, [11410]), (11413, [11412]), (11415, [11414])]
      else if j = 1427 then
        [(11417, [11416]), (11419, [11418]), (11421, [11420]), (11423, [11422])]
      else if j = 1428 then
        [(11425, [11424]), (11427, [11426]), (11429, [11428]), (11431, [11430])]
      else if j = 1429 then
        [(11433, [11432]), (11435, [11434]), (11437, [11436]), (11439, [11438])]
      else if j = 1430 then
        [(11441, [11440]), (11443, [11442]), (11445, [11444]), (11447, [11446])]
      else if j = 1431 then
        [(11449, [11448]), (11451, [11450]), (11453, [11452]), (11455, [11454])]
      else if j = 1432 then
        [(11457, [11456]), (11459, [11458]), (11461, [11460]), (11463, [11462])]
      else if j = 1433 then
        [(11465, [11464]), (11467, [11466]), (11469, [11468]), (11471, [11470])]
      else if j = 1434 then
        [(11473, [11472]), (11475, [11474]), (11477, [11476]), (11479, [11478])]
      else if j = 1435 then
        [(11481, [11480]), (11483, [11482]), (11485, [11484]), (11487, [11486])]
      else if j = 1436 then
        [(11489, [11488]), (11491, [11490])]
      else if j = 1437 then
        [(11500, [11499]), (11502, [11501])]
      else if j = 1438 then
        [(11507, [11506])]
      else [])"

definition upper_block_45 :: "int \<Rightarrow> (int \<times> int list) list" where
  "upper_block_45 j =
     (if j = 1440 then
        [(11520, [4256]), (11521, [4257]), (11522, [4258]), (11523, [4259]), (11524,
         [4260]), (11525, [4261]), (11526, [4262]), (11527, [4263])]
      else if j = 1441 then
        [(11528, [4264]), (11529, [4265]), (11530, [4266]), (11531, [4267]), (11532,
         [4268]), (11533, [4269]), (11534, [4270]), (11535, [4271])]
      else if j = 1442 then
        [(11536, [4272]), (11537, [4273]), (11538, [4274]), (11539, [4275]), (11540,
         [4276]), (11541, [4277]), (11542, [4278]), (11543, [4279])]
      else if j = 1443 then
        [(11544, [4280]), (11545, [4281]), (11546, [4282]), (11547, [4283]), (11548,
         [4284]), (11549, [4285]), (11550, [4286]), (11551, [4287])]
      else if j = 1444 then
        [(11552, [4288]), (11553, [4289]), (11554, [4290]), (11555, [4291]), (11556,
         [4292]), (11557, [4293]), (11559, [4295])]
      else if j = 1445 then
        [(11565, [4301])]
      else [])"

definition upper_block_166 :: "int \<Rightarrow> (int \<times> int list) list" where
  "upper_block_166 j =
     (if j = 5320 then
        [(42561, [42560]), (42563, [42562]), (42565, [42564]), (42567, [42566])]
      else if j = 5321 then
        [(42569, [42568]), (42571, [42570]), (42573, [42572]), (42575, [42574])]
      else if j = 5322 then
        [(42577, [42576]), (42579, [42578]), (42581, [42580]), (42583, [42582])]
      else if j = 5323 then
        [(42585, [42584]), (42587, [42586]), (42589, [42588]), (42591, [42590])]
      else if j = 5324 then
        [(42593, [42592]), (42595, [42594]), (42597, [42596]), (42599, [42598])]
      else if j = 5325 then
        [(42601, [42600]), (42603, [42602]), (42605, [42604])]
      else if j = 5328 then
        [(42625, [42624]), (42627, [42626]), (42629, [42628]), (42631, [42630])]
      else if j = 5329 then
        [(42633, [42632]), (42635, [42634]), (42637, [42636]), (42639, [42638])]
      else if j = 5330 then
        [(42641, [42640]), (42643, [42642]), (42645, [42644]), (42647, [42646])]
      else if j = 5331 then
        [(42649, [42648]), (42651, [42650])]
      else [])"

definition upper_block_167 :: "int \<Rightarrow> (int \<times> int list) list" where
  "upper_block_167 j =
     (if j = 5348 then
        [(42787, [42786]), (42789, [42788]), (42791, [42790])]
      else if j = 5349 then
        [(42793, [42792]), (42795, [42794]), (42797, [42796]), (42799, [42798])]
      else if j = 5350 then
        [(42803, [42802]), (42805, [42804]), (42807, [42806])]
      else if j = 5351 then
        [(42809, [42808]), (42811, [42810]), (42813, [42812]), (42815, [42814])]
      else if j = 5352 then
        [(42817, [42816]), (42819, [42818]), (42821, [42820]), (42823, [42822])]
      else if j = 5353 then
        [(42825, [42824]), (42827, [42826]), (42829, [42828]), (42831, [42830])]
      else if j = 5354 then
        [(42833, [42832]), (42835, [42834]), (42837, [42836]), (42839, [42838])]
      else if j = 5355 then
        [(42841, [42840]), (42843, [42842]), (42845, [42844]), (42847, [42846])]
      else if j = 5356 then
        [(42849, [42848]), (42851, [42850]), (42853, [42852]), (42855, [42854])]
      else if j = 5357 then
        [(42857, [42856]), (42859, [42858]), (42861, [42860]), (42863, [42862])]
      else if j = 5359 then
        [(42874, [42873]), (42876, [42875]), (42879, [42878])]
      else if j = 5360 then
        [(42881, [42880]), (42883, [42882]), (42885, [42884]), (42887, [42886])]
      else if j = 5361 then
        [(42892, [42891])]
      else if j = 5362 then
        [(42897, [42896]), (42899, [42898]), (42900, [42948]), (42903, [42902])]
      else if j = 5363 then
        [(42905, [42904]), (42907, [42906]), (42909, [42908]), (42911, [42910])]
      else if j = 5364 then
        [(42913, [42912]), (42915, [42914]), (42917, [42916]), (42919, [42918])]
      else if j = 5365 then
        [(42921, [42920])]
      else if j = 5366 then
        [(42933, [42932]), (42935, [42934])]
      else if j = 5367 then
        [(42937, [42936]), (42939, [42938]), (42941, [42940]), (42943, [42942])]
      else if j = 5368 then
        [(42945, [42944]), (42947, [42946])]
      else if j = 5369 then
        [(42952, [42951]), (42954, [42953])]
      else if j = 5370 then
        [(42961, [42960]), (42967, [42966])]
      else if j = 5371 then
        [(42969, [42968])]
      else if j = 5374 then
        [(42998, [42997])]
      else [])"

definition upper_block_171 :: "int \<Rightarrow> (int \<times> int list) list" where
  "upper_block_171 j =
     (if j = 5482 then
        [(43859, [42931])]
      else if j = 5486 then
        [(43888, [5024]), (43889, [5025]), (43890, [5026]), (43891, [5027]), (43892,
         [5028]), (43893, [5029]), (43894, [5030]), (43895, [5031])]
      else if j = 5487 then
        [(43896, [5032]), (43897, [5033]), (43898, [5034]), (43899, [5035]), (43900,
         [5036]), (43901, [5037]), (43902, [5038]), (43903, [5039])]
      else if j = 5488 then
        [(43904, [5040]), (43905, [5041]), (43906, [5042]), (43907, [5043]), (43908,
         [5044]), (43909, [5045]), (43910, [5046]), (43911, [5047])]
      else if j = 5489 then
        [(43912, [5048]), (43913, [5049]), (43914, [5050]), (43915, [5051]), (43916,
         [5052]), (43917, [5053]), (43918, [5054]), (43919, [5055])]
      else if j = 5490 then
        [(43920, [5056]), (43921, [5057]), (43922, [5058]), (43923, [5059]), (43924,
         [5060]), (43925, [5061]), (43926, [5062]), (43927, [5063])]
      else if j = 5491 then
        [(43928, [5064]), (43929, [5065]), (43930, [5066]), (43931, [5067]), (43932,
         [5068]), (43933, [5069]), (43934, [5070]), (43935, [5071])]
      else if j = 5492 then
        [(43936, [5072]), (43937, [5073]), (43938, [5074]), (43939, [5075]), (43940,
         [5076]), (43941, [5077]), (43942, [5078]), (43943, [5079])]
      else if j = 5493 then
        [(43944, [5080]), (43945, [5081]), (43946, [5082]), (43947, [5083]), (43948,
         [5084]), (43949, [5085]), (43950, [5086]), (43951, [5087])]
      else if j = 5494 then
        [(43952, [5088]), (43953, [5089]), (43954, [5090]), (43955, [5091]), (43956,
         [5092]), (43957, [5093]), (43958, [5094]), (43959, [5095])]
      else if j = 5495 then
        [(43960, [5096]), (43961, [5097]), (43962, [5098]), (43963, [5099]), (43964,
         [5100]), (43965, [5101]), (43966, [5102]), (43967, [5103])]
      else [])"

definition upper_block_251 :: "int \<Rightarrow> (int \<times> int list) list" where
  "upper_block_251 j =
     (if j = 8032 then
        [(64256, [70, 70]), (64257, [70, 73]), (64258, [70, 76]), (64259, [70, 70, 73]),
         (64260, [70, 70, 76]), (64261, [83, 84]), (64262, [83, 84])]
      else if j = 8034 then
        [(64275, [1348, 1350]), (64276, [1348, 1333]), (64277, [1348, 1339]), (64278,
         [1358, 1350]), (64279, [1348, 1341])]
      else [])"

definition upper_block_255 :: "int \<Rightarrow> (int \<times> int list) list" where
  "upper_block_255 j =
     (if j = 8168 then
        [(65345, [65313]), (65346, [65314]), (65347, [65315]), (65348, [65316]), (65349,
         [65317]), (65350, [65318]), (65351, [65319])]
      else if j = 8169 then
        [(65352, [65320]), (65353, [65321]), (65354, [65322]), (65355, [65323]), (65356,
         [65324]), (65357, [65325]), (65358, [65326]), (65359, [65327])]
      else if j = 8170 then
        [(65360, [65328]), (65361, [65329]), (65362, [65330]), (65363, [65331]), (65364,
         [65332]), (65365, [65333]), (65366, [65334]), (65367, [65335])]
      else if j = 8171 then
        [(65368, [65336]), (65369, [65337]), (65370, [65338])]
      else [])"

definition upper_block_260 :: "int \<Rightarrow> (int \<times> int list) list" where
  "upper_block_260 j =
     (if j = 8325 then
        [(66600, [66560]), (66601, [66561]), (66602, [66562]), (66603, [66563]), (66604,
         [66564]), (66605, [66565]), (66606, [66566]), (66607, [66567])]
      else if j = 8326 then
        [(66608, [66568]), (66609, [66569]), (66610, [66570]), (66611, [66571]), (66612,
         [66572]), (66613, [66573]), (66614, [66574]), (66615, [66575])]
      else if j = 8327 then
        [(66616, [66576]), (66617, [66577]), (66618, [66578]), (66619, [66579]), (66620,
         [66580]), (66621, [66581]), (66622, [66582]), (66623, [66583])]
      else if j = 8328 then
        [(66624, [66584]), (66625, [66585]), (66626, [66586]), (66627, [66587]), (66628,
         [66588]), (66629, [66589]), (66630, [66590]), (66631, [66591])]
      else if j = 8329 then
        [(66632, [66592]), (66633, [66593]), (66634, [66594]), (66635, [66595]), (66636,
         [66596]), (66637, [66597]), (66638, [66598]), (66639, [66599])]
      else if j = 8347 then
        [(66776, [66736]), (66777, [66737]), (66778, [66738]), (66779, [66739]), (66780,
         [66740]), (66781, [66741]), (66782, [66742]), (66783, [66743])]
      else if j = 8348 then
        [(66784, [66744]), (66785, [66745]), (66786, [66746]), (66787, [66747]), (66788,
         [66748]), (66789, [66749]), (66790, [66750]), (66791, [66751])]
      else if j = 8349 then
        [(66792, [66752]), (66793, [66753]), (66794, [66754]), (66795, [66755]), (66796,
         [66756]), (66797, [66757]), (66798, [66758]), (66799, [66759])]
      else if j = 8350 then
        [(66800, [66760]), (66801, [66761]), (66802, [66762]), (66803, [66763]), (66804,
         [66764]), (66805, [66765]), (66806, [66766]), (66807, [66767])]
      else if j = 8351 then
        [(66808, [66768]), (66809, [66769]), (66810, [66770]), (66811, [66771])]
      else [])"

definition upper_block_261 :: "int \<Rightarrow> (int \<times> int list) list" where
  "upper_block_261 j =
     (if j = 8370 then
        [(66967, [66928])]
      else if j = 8371 then
        [(66968, [66929]), (66969, [66930]), (66970, [66931]), (66971, [66932]), (66972,
         [66933]), (66973, [66934]), (66974, [66935]), (66975, [66936])]
      else if j = 8372 then
        [(66976, [66937]), (66977, [66938]), (66979, [66940]), (66980, [66941]), (66981,
         [66942]), (66982, [66943]), (66983, [66944])]
      else if j = 8373 then
        [(66984, [66945]), (66985, [66946]), (66986, [66947]), (66987, [66948]), (66988,
         [66949]), (66989, [66950]), (66990, [66951]), (66991, [66952])]
      else if j = 8374 then
        [(66992, [66953]), (66993, [66954]), (66995, [66956]), (66996, [66957]), (66997,
         [66958]), (66998, [66959]), (66999, [66960])]
      else if j = 8375 then
        [(67000, [66961]), (67001, [66962]), (67003, [66964]), (67004, [66965])]
      else [])"

definition upper_block_268 :: "int \<Rightarrow> (int \<times> int list) list" where
  "upper_block_268 j =
     (if j = 8600 then
        [(68800, [68736]), (68801, [68737]), (68802, [68738]), (68803, [68739]), (68804,
         [68740]), (68805, [68741]), (68806, [68742]), (68807, [68743])]
      else if j = 8601 then
        [(68808, [68744]), (68809, [68745]), (68810, [68746]), (68811, [68747]), (68812,
         [68748]), (68813, [68749]), (68814, [68750]), (68815, [68751])]
      else if j = 8602 then
        [(68816, [68752]), (68817, [68753]), (68818, [68754]), (68819, [68755]), (68820,
         [68756]), (68821, [68757]), (68822, [68758]), (68823, [68759])]
      else if j = 8603 then
        [(68824, [68760]), (68825, [68761]), (68826, [68762]), (68827, [68763]), (68828,
         [68764]), (68829, [68765]), (68830, [68766]), (68831, [68767])]
      else if j = 8604 then
        [(68832, [68768]), (68833, [68769]), (68834, [68770]), (68835, [68771]), (68836,
         [68772]), (68837, [68773]), (68838, [68774]), (68839, [68775])]
      else if j = 8605 then
        [(68840, [68776]), (68841, [68777]), (68842, [68778]), (68843, [68779]), (68844,
         [68780]), (68845, [68781]), (68846, [68782]), (68847, [68783])]
      else if j = 8606 then
        [(68848, [68784]), (68849, [68785]), (68850, [68786])]
      else [])"

definition upper_block_280 :: "int \<Rightarrow> (int \<times> int list) list" where
  "upper_block_280 j =
     (if j = 8984 then
        [(71872, [71840]), (71873, [71841]), (71874, [71842]), (71875, [71843]), (71876,
         [71844]), (71877, [71845]), (71878, [71846]), (71879, [71847])]
      else if j = 8985 then
        [(71880, [71848]), (71881, [71849]), (71882, [71850]), (71883, [71851]), (71884,
         [71852]), (71885, [71853]), (71886, [71854]), (71887, [71855])]
      else if j = 8986 then
        [(71888, [71856]), (71889, [71857]), (71890, [71858]), (71891, [71859]), (71892,
         [71860]), (71893, [71861]), (71894, [71862]), (71895, [71863])]
      else if j = 8987 then
        [(71896, [71864]), (71897, [71865]), (71898, [71866]), (71899, [71867]), (71900,
         [71868]), (71901, [71869]), (71902, [71870]), (71903, [71871])]
      else [])"

definition upper_block_366 :: "int \<Rightarrow> (int \<times> int list) list" where
  "upper_block_366 j =
     (if j = 11724 then
        [(93792, [93760]), (93793, [93761]), (93794, [93762]), (93795, [93763]), (93796,
         [93764]), (93797, [93765]), (93798, [93766]), (93799, [93767])]
      else if j = 11725 then
        [(93800, [93768]), (93801, [93769]), (93802, [93770]), (93803, [93771]), (93804,
         [93772]), (93805, [93773]), (93806, [93774]), (93807, [93775])]
      else if j = 11726 then
        [(93808, [93776]), (93809, [93777]), (93810, [93778]), (93811, [93779]), (93812,
         [93780]), (93813, [93781]), (93814, [93782]), (93815, [93783])]
      else if j = 11727 then
        [(93816, [93784]), (93817, [93785]), (93818, [93786]), (93819, [93787]), (93820,
         [93788]), (93821, [93789]), (93822, [93790]), (93823, [93791])]
      else [])"

definition upper_block_489 :: "int \<Rightarrow> (int \<times> int list) list" where
  "upper_block_489 j =
     (if j = 15652 then
        [(125218, [125184]), (125219, [125185]), (125220, [125186]), (125221, [125187]),
         (125222, [125188]), (125223, [125189])]
      else if j = 15653 then
        [(125224, [125190]), (125225, [125191]), (125226, [125192]), (125227, [125193]),
         (125228, [125194]), (125229, [125195]), (125230, [125196]), (125231, [125197])]
      else if j = 15654 then
        [(125232, [125198]), (125233, [125199]), (125234, [125200]), (125235, [125201]),
         (125236, [125202]), (125237, [125203]), (125238, [125204]), (125239, [125205])]
      else if j = 15655 then
        [(125240, [125206]), (125241, [125207]), (125242, [125208]), (125243, [125209]),
         (125244, [125210]), (125245, [125211]), (125246, [125212]), (125247, [125213])]
      else if j = 15656 then
        [(125248, [125214]), (125249, [125215]), (125250, [125216]), (125251, [125217])]
      else [])"

text \<open>The entries of the table for the eight code points \<open>8 * j\<close> to \<open>8 * j + 7\<close>, which
  lie in the block \<open>b\<close> of 256 code points.\<close>

definition upper_block :: "int \<Rightarrow> int \<Rightarrow> (int \<times> int list) list" where
  "upper_block b j =
     (if b = 0 then upper_block_0 j
      else if b = 1 then upper_block_1 j
      else if b = 2 then upper_block_2 j
      else if b = 3 then upper_block_3 j
      else if b = 4 then upper_block_4 j
      else if b = 5 then upper_block_5 j
      else if b = 16 then upper_block_16 j
      else if b = 19 then upper_block_19 j
      else if b = 28 then upper_block_28 j
      else if b = 29 then upper_block_29 j
      else if b = 30 then upper_block_30 j
      else if b = 31 then upper_block_31 j
      else if b = 33 then upper_block_33 j
      else if b = 36 then upper_block_36 j
      else if b = 44 then upper_block_44 j
      else if b = 45 then upper_block_45 j
      else if b = 166 then upper_block_166 j
      else if b = 167 then upper_block_167 j
      else if b = 171 then upper_block_171 j
      else if b = 251 then upper_block_251 j
      else if b = 255 then upper_block_255 j
      else if b = 260 then upper_block_260 j
      else if b = 261 then upper_block_261 j
      else if b = 268 then upper_block_268 j
      else if b = 280 then upper_block_280 j
      else if b = 366 then upper_block_366 j
      else if b = 489 then upper_block_489 j
      else [])"

definition upper_cp :: "int \<Rightarrow> str" where
  "upper_cp c =
     (if c < 128 then [if 97 \<le> c \<and> c \<le> 122 then c - 32 else c]
      else (case map_of (upper_block (c div 256) (c div 8)) c of
              None \<Rightarrow> [c]
            | Some ds \<Rightarrow> ds))"

text \<open>\<open>str.strip()\<close>, \<open>str.upper()\<close>, \<open>sep.join(xs)\<close>.\<close>

definition py_strip :: "str \<Rightarrow> str" where
  "py_strip s = rev (dropWhile isspace (rev (dropWhile isspace s)))"

definition py_upper :: "str \<Rightarrow> str" where
  "py_upper s = concat (map upper_cp s)"

fun py_join :: "'a list \<Rightarrow> 'a list list \<Rightarrow> 'a list" where
  "py_join sep [] = []"
| "py_join sep [w] = w"
| "py_join sep (w # v # ws) = w @ sep @ py_join sep (v # ws)"

text \<open>\<open>re.sub(r"\s+", repl, s)\<close>: scanning from the left, every maximal run of whitespace
  is replaced by \<open>repl\<close>.\<close>

function re_sub_ws :: "str \<Rightarrow> str \<Rightarrow> str" where
  "re_sub_ws repl [] = []"
| "re_sub_ws repl (c # cs) =
     (if isspace c then repl @ re_sub_ws repl (dropWhile isspace cs)
      else c # re_sub_ws repl cs)"
  by pat_completeness auto
termination
  by (relation "measure (\<lambda>(repl, s). length s)")
     (auto simp: le_imp_less_Suc length_dropWhile_le)

text \<open>\<open>str(n)\<close> of an integer: its decimal digits (code points 48 to 57) after the sign.\<close>

fun str_nat :: "nat \<Rightarrow> str" where
  "str_nat n = (if n < 10 then [48 + int n]
                else str_nat (n div 10) @ [48 + int (n mod 10)])"

declare str_nat.simps [simp del]

definition str_int :: "int \<Rightarrow> str" where
  "str_int i = (if i < 0 then 45 # str_nat (nat (- i)) else str_nat (nat i))"

section \<open>pandas operations on series and frames\<close>

text \<open>\<open>Series.astype(str)\<close> on a series of Python objects applies \<open>str\<close> to every
  element, the missing ones included: \<open>str(float('nan'))\<close> is \<open>'nan'\<close> and \<open>str(None)\<close>
  is \<open>'None'\<close>. This is pandas on object columns, as a sheet's text column is read
  (pandas 1.x and 2.x).\<close>

fun astype_str :: "cell \<Rightarrow> cell" where
  "astype_str NaN = Text (lit ''nan'')"
| "astype_str NoneV = Text (lit ''None'')"
| "astype_str (IntV n) = Text (str_int n)"
| "astype_str (Text s) = Text s"

text \<open>\<open>Series.fillna(v)\<close> replaces the missing elements.\<close>

fun fillna :: "str \<Rightarrow> cell \<Rightarrow> cell" where
  "fillna v NaN = Text v"
| "fillna v NoneV = Text v"
| "fillna v c = c"

text \<open>A method of the \<open>.str\<close> accessor acts on the texts and gives \<open>NaN\<close> elsewhere.\<close>

fun str_method :: "(str \<Rightarrow> str) \<Rightarrow> cell \<Rightarrow> cell" where
  "str_method f (Text s) = Text (f s)"
| "str_method f c = NaN"

fun index_of :: "'a \<Rightarrow> 'a list \<Rightarrow> nat option" where
  "index_of x [] = None"
| "index_of x (y # ys) =
     (if x = y then Some 0 else map_option Suc (index_of x ys))"

definition cell_at :: "cell list \<Rightarrow> nat \<Rightarrow> cell" where
  "cell_at r i = (if i < length r then r ! i else NaN)"

text \<open>\<open>df[c]\<close>: the column as a series, \<open>KeyError\<close> when the label is absent.\<close>

definition getitem :: "dataframe \<Rightarrow> string \<Rightarrow> error + series" where
  "getitem df c =
     (case index_of c (columns df) of
        None \<Rightarrow> Inl (KeyError c)
      | Some i \<Rightarrow> Inr (map (\<lambda>r. cell_at r i) (rows df)))"

text \<open>\<open>s.isin(values)\<close> and \<open>df.loc[mask]\<close> with a mask over the frame's own rows.\<close>

definition isin :: "series \<Rightarrow> cell set \<Rightarrow> bool list" where
  "isin s vals = map (\<lambda>v. v \<in> vals) s"

definition loc :: "dataframe \<Rightarrow> bool list \<Rightarrow> dataframe" where
  "loc df msk = df\<lparr>rows := map fst (filter snd (zip (rows df) msk))\<rparr>"

text \<open>\<open>df.reset_index(drop=True)\<close> renumbers the row labels and changes nothing else.\<close>

definition reset_index_drop :: "dataframe \<Rightarrow> dataframe" where
  "reset_index_drop df = df"

text \<open>\<open>df.insert(0, column, values)\<close>: a new first column; pandas raises \<open>ValueError\<close>
  when the label is already a column of the frame (\<open>allow_duplicates\<close> is off), and when
  the values do not have the frame's length.\<close>

definition insert0 :: "string \<Rightarrow> cell list \<Rightarrow> dataframe \<Rightarrow> error + dataframe" where
  "insert0 column vals df =
     (if column \<in> set (columns df)
      then Inl (ValueError (''cannot insert '' @ column @ '', already exists''))
      else if length vals \<noteq> length (rows df)
      then Inl (ValueError ''Length of values does not match length of index'')
      else Inr \<lparr>columns = column # columns df,
                rows = map (\<lambda>(v, r). v # r) (zip vals (rows df))\<rparr>)"

section \<open>The script\<close>

text \<open>\<open>normalize_name\<close>, statement by statement.\<close>

definition normalize_name :: "series \<Rightarrow> series" where
  "normalize_name s =
     (let s1 = map (str_method py_strip) (map (fillna []) (map astype_str s));
          s2 = map (str_method (re_sub_ws (lit '' ''))) s1;
          s3 = map (str_method py_upper) s2
      in s3)"

text \<open>\<open>add_serial_number\<close>: \<open>range(1, len(df_out) + 1)\<close> as the new first column.\<close>

definition add_serial_number :: "dataframe \<Rightarrow> error + dataframe" where
  "add_serial_number df =
     (let df_out = reset_index_drop df
      in insert0 SERIAL_COL (map IntV [1 ..int (length (rows df_out))]) df_out)"

text \<open>\<open>to_xlsx_bytes\<close>: the workbook is represented by its sheets in order, each under
  the first 31 characters of its name.\<close>

definition to_xlsx_bytes :: "(string \<times> dataframe) list \<Rightarrow> (string \<times> dataframe) list" where
  "to_xlsx_bytes df_dict = map (\<lambda>(sheet_name, df). (take 31 sheet_name, df)) df_dict"

text \<open>The column validation: the list \<open>missing\<close>.\<close>

definition missing_a :: string where
  "missing_a = ''Excel A missing column: '' @ [CHR 0x27] @ NAME_COL @ [CHR 0x27]"

definition missing_b :: string where
  "missing_b = ''Excel B missing column: '' @ [CHR 0x27] @ NAME_COL @ [CHR 0x27]"

definition missing :: "dataframe \<Rightarrow> dataframe \<Rightarrow> string list" where
  "missing df_a df_b =
     (if NAME_COL \<notin> set (columns df_a) then [missing_a] else []) @
     (if NAME_COL \<notin> set (columns df_b) then [missing_b] else [])"

definition stop_message :: "string list \<Rightarrow> string" where
  "stop_message ms =
     ''Cannot compare because required column is missing:'' @ [CHR 0x0A, CHR 0x0A] @ ''- ''
       @ py_join ([CHR 0x0A] @ ''- '') ms"

text \<open>The compare block on the two name columns: the two masks.\<close>

definition key_set :: "series \<Rightarrow> cell set" where
  "key_set norm = set (filter (\<lambda>k. k \<noteq> Text []) norm)"

definition compare_masks :: "series \<Rightarrow> series \<Rightarrow> bool list \<times> bool list" where
  "compare_masks col_a col_b =
     (let a_norm = normalize_name col_a;
          b_norm = normalize_name col_b;
          a_set = key_set a_norm;
          b_set = key_set b_norm;
          new_mask_b = isin b_norm (b_set - a_set);
          removed_mask_a = isin a_norm (a_set - b_set)
      in (new_mask_b, removed_mask_a))"

text \<open>The compare block on the frames: \<open>(new_rows_b, removed_rows_a)\<close>.\<close>

definition compare :: "dataframe \<Rightarrow> dataframe \<Rightarrow> error + dataframe \<times> dataframe" where
  "compare df_a df_b =
     (case getitem df_a NAME_COL of
        Inl e \<Rightarrow> Inl e
      | Inr col_a \<Rightarrow>
          (case getitem df_b NAME_COL of
             Inl e \<Rightarrow> Inl e
           | Inr col_b \<Rightarrow>
               (let (new_mask_b, removed_mask_a) = compare_masks col_a col_b
                in Inr (loc df_b new_mask_b, loc df_a removed_mask_a))))"

text \<open>The script once both files are uploaded and their sheets parsed: it stops with the
  error message, or fails with an uncaught exception, or hands the workbook to the
  download button.\<close>

definition pipeline :: "dataframe \<Rightarrow> dataframe \<Rightarrow> error + (string \<times> dataframe) list" where
  "pipeline df_a df_b =
     (if missing df_a df_b \<noteq> [] then Inl (Stop (stop_message (missing df_a df_b)))
      else
        (case compare df_a df_b of
           Inl e \<Rightarrow> Inl e
         | Inr (new_rows_b, removed_rows_a) \<Rightarrow>
             (case add_serial_number new_rows_b of
                Inl e \<Rightarrow> Inl e
              | Inr new_rows_b_out \<Rightarrow>
                  (case add_serial_number removed_rows_a of
                     Inl e \<Rightarrow> Inl e
                   | Inr removed_rows_a_out \<Rightarrow>
                       Inr (to_xlsx_bytes
                              [(''New_in_Excel_B'', new_rows_b_out),
                               (''Removed_from_Excel_A'', removed_rows_a_out)])))))"

section \<open>Notions of the specification\<close>

text \<open>Normalization of one text, the normalized key of a row, and the key set of a
  frame: the non-empty normalized keys of its rows.\<close>

definition normalize_text :: "str \<Rightarrow> str" where
  "normalize_text s = py_upper (re_sub_ws (lit '' '') (py_strip s))"

definition name_pos :: "dataframe \<Rightarrow> nat" where
  "name_pos df = (case index_of NAME_COL (columns df) of None \<Rightarrow> 0 | Some i \<Rightarrow> i)"

definition row_key :: "dataframe \<Rightarrow> cell list \<Rightarrow> cell" where
  "row_key df r = hd (normalize_name [cell_at r (name_pos df)])"

definition keys :: "dataframe \<Rightarrow> cell set" where
  "keys df = {k \<in> row_key df ` set (rows df). k \<noteq> Text []}"

text \<open>Splitting a text at whitespace, as \<open>str.split()\<close> does: the maximal runs of
  characters that are not whitespace.\<close>

function py_split :: "str \<Rightarrow> str list" where
  "py_split [] = []"
| "py_split (c # cs) =
     (if isspace c then py_split cs
      else (c # takeWhile (\<lambda>x. \<not> isspace x) cs) # py_split (dropWhile (\<lambda>x. \<not> isspace x) cs))"
  by pat_completeness auto
termination
  by (relation "measure length") (auto simp: le_imp_less_Suc length_dropWhile_le)

text \<open>A text without whitespace that is not empty.\<close>

definition word :: "str \<Rightarrow> bool" where
  "word w \<longleftrightarrow> w \<noteq> [] \<and> (\<forall>c\<in>set w. \<not> isspace c)"

text \<open>The name column of a frame that has one, and the row positions at which a mask
  is true, in increasing order.\<close>

definition name_column :: "dataframe \<Rightarrow> series" where
  "name_column df = map (\<lambda>r. cell_at r (name_pos df)) (rows df)"

definition positions :: "bool list \<Rightarrow> nat list" where
  "positions msk = filter (\<lambda>i. msk ! i) [0..<length msk]"

text \<open>What the proofs need of an entry of the upper-case table: it is a code point from
  128 on that is not whitespace, and what it becomes is not empty, holds no whitespace and
  is left unchanged by \<open>upper_cp\<close>.\<close>

definition upper_entry_ok :: "int \<times> int list \<Rightarrow> bool" where
  "upper_entry_ok e =
     (128 \<le> fst e \<and> \<not> isspace (fst e) \<and> snd e \<noteq> [] \<and>
      list_all (\<lambda>d. \<not> isspace d \<and> upper_cp d = [d]) (snd e))"

section \<open>Example frames\<close>

text \<open>The two rosters of the specification's first end-to-end scenario, and frames with
  blank names, with other columns, without the name column, with a serial column of
  their own and with a missing name.\<close>

abbreviation old_list :: dataframe where
  "old_list \<equiv> \<lparr>columns = [NAME_COL], rows = [[Text (lit ''Alice Tan'')], [Text (lit ''Bob Lee'')]]\<rparr>"

abbreviation new_list :: dataframe where
  "new_list \<equiv> \<lparr>columns = [NAME_COL], rows = [[Text (lit ''ALICE TAN'')], [Text (lit ''Carol Ng'')]]\<rparr>"

abbreviation old_blank :: dataframe where
  "old_blank \<equiv> \<lparr>columns = [NAME_COL, ''Dept''],
     rows = [[Text (lit ''Alice Tan''), Text (lit ''HR'')], [Text [], Text (lit ''IT'')],
             [Text (lit ''Bob Lee''), Text (lit ''IT'')]]\<rparr>"

abbreviation new_blank :: dataframe where
  "new_blank \<equiv> \<lparr>columns = [NAME_COL, ''Dept''],
     rows = [[Text (lit ''Dan Ong''), Text (lit ''HR'')], [Text (lit ''   ''), Text (lit ''HR'')],
             [Text (lit ''alice  tan''), Text (lit ''IT'')], [Text (lit ''Eve Lim''), Text (lit ''IT'')]]\<rparr>"

abbreviation old_other :: dataframe where
  "old_other \<equiv> \<lparr>columns = [''Id'', NAME_COL],
     rows = [[IntV 10, Text (lit ''Alice Tan'')], [IntV 11, Text []], [IntV 12, Text (lit ''Bob Lee'')]]\<rparr>"

abbreviation new_other :: dataframe where
  "new_other \<equiv> \<lparr>columns = [''Id'', NAME_COL, ''Site''],
     rows = [[IntV 7, Text (lit ''Dan Ong''), NaN], [IntV 8, Text (lit ''   ''), NaN],
             [IntV 9, Text (lit ''alice  tan''), Text (lit ''East'')], [IntV 3, Text (lit ''Eve Lim''), NaN]]\<rparr>"

abbreviation no_name :: dataframe where
  "no_name \<equiv> \<lparr>columns = [''Name''], rows = [[Text (lit ''Alice Tan'')], [Text (lit ''Bob Lee'')]]\<rparr>"

abbreviation with_serial :: dataframe where
  "with_serial \<equiv> \<lparr>columns = [SERIAL_COL, NAME_COL],
     rows = [[IntV 1, Text (lit ''ALICE TAN'')], [IntV 2, Text (lit ''Carol Ng'')]]\<rparr>"

abbreviation old_missing_name :: dataframe where
  "old_missing_name \<equiv> \<lparr>columns = [NAME_COL, ''Dept''],
     rows = [[Text (lit ''Alice Tan''), Text (lit ''HR'')], [NaN, Text (lit ''IT'')]]\<rparr>"

section \<open>The upper-case table\<close>

lemmas upper_eval = upper_entry_ok_def isspace_def upper_cp_def upper_block_def map_of_Cons_code
  upper_block_0_def upper_block_1_def upper_block_2_def upper_block_3_def upper_block_4_def upper_block_5_def upper_block_16_def upper_block_19_def upper_block_28_def upper_block_29_def upper_block_30_def upper_block_31_def upper_block_33_def upper_block_36_def upper_block_44_def upper_block_45_def upper_block_166_def upper_block_167_def upper_block_171_def upper_block_251_def upper_block_255_def upper_block_260_def upper_block_261_def upper_block_268_def upper_block_280_def upper_block_366_def upper_block_489_def

lemma upper_block_0_ok: "list_all upper_entry_ok (upper_block_0 j)"
  unfolding upper_block_0_def by (simp add: upper_eval del: map_of.simps)

lemma upper_block_1_ok: "list_all upper_entry_ok (upper_block_1 j)"
  unfolding upper_block_1_def by (simp add: upper_eval del: map_of.simps)

lemma upper_block_2_ok: "list_all upper_entry_ok (upper_block_2 j)"
  unfolding upper_block_2_def by (simp add: upper_eval del: map_of.simps)

lemma upper_block_3_ok: "list_all upper_entry_ok (upper_block_3 j)"
  unfolding upper_block_3_def by (simp add: upper_eval del: map_of.simps)

lemma upper_block_4_ok: "list_all upper_entry_ok (upper_block_4 j)"
  unfolding upper_block_4_def by (simp add: upper_eval del: map_of.simps)

lemma upper_block_5_ok: "list_all upper_entry_ok (upper_block_5 j)"
  unfolding upper_block_5_def by (simp add: upper_eval del: map_of.simps)

lemma upper_block_16_ok: "list_all upper_entry_ok (upper_block_16 j)"
  unfolding upper_block_16_def by (simp add: upper_eval del: map_of.simps)

lemma upper_block_19_ok: "list_all upper_entry_ok (upper_block_19 j)"
  unfolding upper_block_19_def by (simp add: upper_eval del: map_of.simps)

lemma upper_block_28_ok: "list_all upper_entry_ok (upper_block_28 j)"
  unfolding upper_block_28_def by (simp add: upper_eval del: map_of.simps)

lemma upper_block_29_ok: "list_all upper_entry_ok (upper_block_29 j)"
  unfolding upper_block_29_def by (simp add: upper_eval del: map_of.simps)

lemma upper_block_30_ok: "list_all upper_entry_ok (upper_block_30 j)"
  unfolding upper_block_30_def by (simp add: upper_eval del: map_of.simps)

lemma upper_block_31_ok: "list_all upper_entry_ok (upper_block_31 j)"
  unfolding upper_block_31_def by (simp add: upper_eval del: map_of.simps)

lemma upper_block_33_ok: "list_all upper_entry_ok (upper_block_33 j)"
  unfolding upper_block_33_def by (simp add: upper_eval del: map_of.simps)

lemma upper_block_36_ok: "list_all upper_entry_ok (upper_block_36 j)"
  unfolding upper_block_36_def by (simp add: upper_eval del: map_of.simps)

lemma upper_block_44_ok: "list_all upper_entry_ok (upper_block_44 j)"
  unfolding upper_block_44_def by (simp add: upper_eval del: map_of.simps)

lemma upper_block_45_ok: "list_all upper_entry_ok (upper_block_45 j)"
  unfolding upper_block_45_def by (simp add: upper_eval del: map_of.simps)

lemma upper_block_166_ok: "list_all upper_entry_ok (upper_block_166 j)"
  unfolding upper_block_166_def by (simp add: upper_eval del: map_of.simps)

lemma upper_block_167_ok: "list_all upper_entry_ok (upper_block_167 j)"
  unfolding upper_block_167_def by (simp add: upper_eval del: map_of.simps)

lemma upper_block_171_ok: "list_all upper_entry_ok (upper_block_171 j)"
  unfolding upper_block_171_def by (simp add: upper_eval del: map_of.simps)

lemma upper_block_251_ok: "list_all upper_entry_ok (upper_block_251 j)"
  unfolding upper_block_251_def by (simp add: upper_eval del: map_of.simps)

lemma upper_block_255_ok: "list_all upper_entry_ok (upper_block_255 j)"
  unfolding upper_block_255_def by (simp add: upper_eval del: map_of.simps)

lemma upper_block_260_ok: "list_all upper_entry_ok (upper_block_260 j)"
  unfolding upper_block_260_def by (simp add: upper_eval del: map_of.simps)

lemma upper_block_261_ok: "list_all upper_entry_ok (upper_block_261 j)"
  unfolding upper_block_261_def by (simp add: upper_eval del: map_of.simps)

lemma upper_block_268_ok: "list_all upper_entry_ok (upper_block_268 j)"
  unfolding upper_block_268_def by (simp add: upper_eval del: map_of.simps)

lemma upper_block_280_ok: "list_all upper_entry_ok (upper_block_280 j)"
  unfolding upper_block_280_def by (simp add: upper_eval del: map_of.simps)

lemma upper_block_366_ok: "list_all upper_entry_ok (upper_block_366 j)"
  unfolding upper_block_366_def by (simp add: upper_eval del: map_of.simps)

lemma upper_block_489_ok: "list_all upper_entry_ok (upper_block_489 j)"
  unfolding upper_block_489_def by (simp add: upper_eval del: map_of.simps)

lemma upper_block_ok: "list_all upper_entry_ok (upper_block b j)"
  unfolding upper_block_def
  by (simp add: upper_block_0_ok upper_block_1_ok upper_block_2_ok upper_block_3_ok upper_block_4_ok upper_block_5_ok upper_block_16_ok upper_block_19_ok upper_block_28_ok upper_block_29_ok upper_block_30_ok upper_block_31_ok upper_block_33_ok upper_block_36_ok upper_block_44_ok upper_block_45_ok upper_block_166_ok upper_block_167_ok upper_block_171_ok upper_block_251_ok upper_block_255_ok upper_block_260_ok upper_block_261_ok upper_block_268_ok upper_block_280_ok upper_block_366_ok upper_block_489_ok)

lemma upper_cp_entry:
  assumes "128 \<le> c" and "upper_cp c \<noteq> [c]"
  shows "upper_entry_ok (c, upper_cp c)"
proof (cases "map_of (upper_block (c div 256) (c div 8)) c")
  case None
  with assms show ?thesis by (simp add: upper_cp_def)
next
  case (Some ds)
  then have "(c, ds) \<in> set (upper_block (c div 256) (c div 8))" by (rule map_of_SomeD)
  then have "upper_entry_ok (c, ds)"
    using upper_block_ok[of "c div 256" "c div 8"] by (simp add: list_all_iff)
  with Some assms(1) show ?thesis by (simp add: upper_cp_def)
qed

lemma upper_cp_ascii:
  "c < 128 \<Longrightarrow> upper_cp c = [if 97 \<le> c \<and> c \<le> 122 then c - 32 else c]"
  by (simp add: upper_cp_def)

lemma upper_cp_space: "isspace c \<Longrightarrow> upper_cp c = [c]"
proof (cases "c < 128")
  case True
  assume "isspace c"
  with True show ?thesis by (auto simp: upper_cp_ascii isspace_def)
next
  case False
  assume sp: "isspace c"
  show ?thesis
  proof (rule ccontr)
    assume "upper_cp c \<noteq> [c]"
    with False have "upper_entry_ok (c, upper_cp c)" by (intro upper_cp_entry) simp_all
    with sp show False by (simp add: upper_entry_ok_def)
  qed
qed

lemma upper_cp_nonspace:
  assumes "\<not> isspace c"
  shows "upper_cp c \<noteq> []" and "\<forall>d\<in>set (upper_cp c). \<not> isspace d"
proof -
  have "upper_cp c \<noteq> [] \<and> (\<forall>d\<in>set (upper_cp c). \<not> isspace d)"
  proof (cases "c < 128")
    case True
    with assms show ?thesis by (auto simp: upper_cp_ascii isspace_def)
  next
    case False
    show ?thesis
    proof (cases "upper_cp c = [c]")
      case True
      with assms show ?thesis by simp
    next
      case ne: False
      with False have "upper_entry_ok (c, upper_cp c)" by (intro upper_cp_entry) simp_all
      then show ?thesis by (simp add: upper_entry_ok_def list_all_iff)
    qed
  qed
  then show "upper_cp c \<noteq> []" and "\<forall>d\<in>set (upper_cp c). \<not> isspace d" by simp_all
qed

lemma upper_cp_fixed: "d \<in> set (upper_cp c) \<Longrightarrow> upper_cp d = [d]"
proof (cases "c < 128")
  case True
  assume "d \<in> set (upper_cp c)"
  with True have "d = (if 97 \<le> c \<and> c \<le> 122 then c - 32 else c)" by (simp add: upper_cp_ascii)
  with True show ?thesis by (auto simp: upper_cp_ascii)
next
  case False
  assume d: "d \<in> set (upper_cp c)"
  show ?thesis
  proof (cases "upper_cp c = [c]")
    case True
    with d show ?thesis by simp
  next
    case ne: False
    with False have "upper_entry_ok (c, upper_cp c)" by (intro upper_cp_entry) simp_all
    with d show ?thesis by (simp add: upper_entry_ok_def list_all_iff)
  qed
qed

section \<open>Text: whitespace, words and upper case\<close>

lemma isspace_space [simp]: "isspace 32"
  by (simp add: isspace_def)

lemma lit_space [simp]: "lit [CHR 0x20] = [32]"
  by (simp add: lit_def)

lemma re_sub_ws_word:
  "\<forall>c\<in>set w. \<not> isspace c \<Longrightarrow> re_sub_ws r (w @ s) = w @ re_sub_ws r s"
  by (induction w) simp_all

lemma py_split_dropWhile [simp]: "py_split (dropWhile isspace s) = py_split s"
  by (induction s) simp_all

lemma py_split_all_space: "\<forall>c\<in>set t. isspace c \<Longrightarrow> py_split t = []"
  by (induction t) simp_all

lemma py_split_eq_Nil: "py_split s = [] \<longleftrightarrow> (\<forall>c\<in>set s. isspace c)"
  by (induction s rule: py_split.induct) auto

lemma takeWhile_nonspace_append:
  assumes "\<forall>c\<in>set t. isspace c"
  shows "takeWhile (\<lambda>x. \<not> isspace x) (cs @ t) = takeWhile (\<lambda>x. \<not> isspace x) cs"
proof -
  have "takeWhile (\<lambda>x. \<not> isspace x) t = []" using assms by (cases t) auto
  then show ?thesis by (induction cs) auto
qed

lemma py_split_append_space:
  "\<forall>c\<in>set t. isspace c \<Longrightarrow> py_split (s @ t) = py_split s"
proof (induction s rule: py_split.induct)
  case 1
  then show ?case by (simp add: py_split_all_space)
next
  case (2 c cs)
  show ?case
  proof (cases "isspace c")
    case True
    with 2 show ?thesis by simp
  next
    case False
    let ?ns = "\<lambda>x. \<not> isspace x"
    have tw: "takeWhile ?ns (cs @ t) = takeWhile ?ns cs"
      using 2(3) by (rule takeWhile_nonspace_append)
    have "py_split (dropWhile ?ns (cs @ t)) = py_split (dropWhile ?ns cs)"
    proof (cases "\<forall>x\<in>set cs. ?ns x")
      case True
      then have a: "dropWhile ?ns (cs @ t) = dropWhile ?ns t" and b: "dropWhile ?ns cs = []"
        by simp_all
      have c: "dropWhile ?ns t = t"
        using 2(3) by (cases t) simp_all
      have d: "py_split t = []"
        using 2(3) by (rule py_split_all_space)
      show ?thesis unfolding a b c d by simp
    next
      case nall: False
      then have "dropWhile ?ns (cs @ t) = dropWhile ?ns cs @ t"
        by (auto simp: dropWhile_append1)
      then show ?thesis using 2(2)[OF False 2(3)] by simp
    qed
    with False tw show ?thesis by simp
  qed
qed

lemma py_join_Cons_Cons: "py_join r ((c # w) # ws) = c # py_join r (w # ws)"
  by (cases ws) simp_all

lemma re_sub_ws_join_split:
  "t = [] \<or> \<not> isspace (last t) \<Longrightarrow>
   re_sub_ws r t = (if t \<noteq> [] \<and> isspace (hd t) then r else []) @ py_join r (py_split t)"
proof (induction r t rule: re_sub_ws.induct)
  case (1 r)
  then show ?case by simp
next
  case (2 r c cs)
  show ?case
  proof (cases "isspace c")
    case True
    with 2(3) have cs: "cs \<noteq> []" "\<not> isspace (last cs)" by (auto split: if_splits)
    let ?t = "dropWhile isspace cs"
    have ne: "?t \<noteq> []" using cs last_in_set[of cs] by (auto simp: dropWhile_eq_Nil_conv)
    then have "\<not> isspace (hd ?t)" by (rule hd_dropWhile)
    moreover have "last ?t = last cs"
      using ne last_appendR[of ?t "takeWhile isspace cs"] by simp
    ultimately have "re_sub_ws r ?t = py_join r (py_split ?t)"
      using 2(1)[OF True] cs ne by simp
    with True show ?thesis by simp
  next
    case False
    show ?thesis
    proof (cases cs)
      case Nil
      with False show ?thesis by simp
    next
      case (Cons d ds)
      with 2(3) have last: "\<not> isspace (last cs)" by simp
      have ih: "re_sub_ws r cs = (if isspace d then r else []) @ py_join r (py_split cs)"
        using 2(2)[OF False] last Cons by simp
      show ?thesis
      proof (cases "isspace d")
        case True
        have "py_split cs \<noteq> []"
          using last Cons last_in_set[of cs] by (auto simp: py_split_eq_Nil)
        then obtain v vs where "py_split cs = v # vs" by (cases "py_split cs") auto
        with True False Cons ih show ?thesis by simp
      next
        case nd: False
        with False Cons ih show ?thesis by (simp add: py_join_Cons_Cons)
      qed
    qed
  qed
qed

lemma py_strip_decomp:
  "dropWhile isspace s = py_strip s @ rev (takeWhile isspace (rev (dropWhile isspace s)))"
proof -
  let ?u = "dropWhile isspace s"
  have "rev (dropWhile isspace (rev ?u)) @ rev (takeWhile isspace (rev ?u))
        = rev (takeWhile isspace (rev ?u) @ dropWhile isspace (rev ?u))"
    by (simp only: rev_append)
  then show ?thesis unfolding py_strip_def by simp
qed

lemma py_strip_trimmed:
  assumes ne: "py_strip s \<noteq> []"
  shows "\<not> isspace (hd (py_strip s))" and "\<not> isspace (last (py_strip s))"
proof -
  let ?u = "dropWhile isspace s"
  let ?r = "rev (takeWhile isspace (rev ?u))"
  from ne have "dropWhile isspace (rev ?u) \<noteq> []" unfolding py_strip_def by simp
  then have "\<not> isspace (hd (dropWhile isspace (rev ?u)))" by (rule hd_dropWhile)
  then show "\<not> isspace (last (py_strip s))"
    using ne unfolding py_strip_def by (simp add: last_rev)
  have "?u \<noteq> []"
  proof
    assume a: "?u = []"
    have "py_strip s = []" unfolding py_strip_def a by simp
    with ne show False by simp
  qed
  then have nsp: "\<not> isspace (hd ?u)" by (rule hd_dropWhile)
  have a: "hd (py_strip s @ ?r) = hd (py_strip s)" using ne by (rule hd_append2)
  have b: "hd ?u = hd (py_strip s @ ?r)" using py_strip_decomp[of s] by (rule arg_cong)
  have "hd ?u = hd (py_strip s)" by (rule trans[OF b a])
  with nsp show "\<not> isspace (hd (py_strip s))" by simp
qed

lemma collapse_strip: "re_sub_ws r (py_strip s) = py_join r (py_split s)"
proof -
  let ?t = "py_strip s"
  let ?r = "rev (takeWhile isspace (rev (dropWhile isspace s)))"
  have sp: "\<forall>c\<in>set ?r. isspace c"
    by (auto dest: set_takeWhileD)
  have "py_split s = py_split (dropWhile isspace s)" by simp
  also have "\<dots> = py_split (?t @ ?r)" using py_strip_decomp[of s] by (rule arg_cong)
  also have "\<dots> = py_split ?t" using sp by (rule py_split_append_space)
  finally have eq: "py_split s = py_split ?t" .
  have tr: "?t = [] \<or> \<not> isspace (last ?t)" using py_strip_trimmed(2)[of s] by blast
  have hd: "\<not> (?t \<noteq> [] \<and> isspace (hd ?t))" using py_strip_trimmed(1)[of s] by blast
  have "re_sub_ws r ?t = py_join r (py_split ?t)"
    using re_sub_ws_join_split[OF tr, of r] hd by simp
  with eq show ?thesis by simp
qed

lemma py_split_word:
  assumes "\<forall>c\<in>set w. \<not> isspace c" and "rest = [] \<or> isspace (hd rest)"
  shows "takeWhile (\<lambda>x. \<not> isspace x) (w @ rest) = w"
    and "dropWhile (\<lambda>x. \<not> isspace x) (w @ rest) = rest"
proof -
  have t: "takeWhile (\<lambda>x. \<not> isspace x) rest = []" using assms(2) by (cases rest) auto
  have d: "dropWhile (\<lambda>x. \<not> isspace x) rest = rest" using assms(2) by (cases rest) auto
  show "takeWhile (\<lambda>x. \<not> isspace x) (w @ rest) = w" using assms(1) t by (induction w) auto
  show "dropWhile (\<lambda>x. \<not> isspace x) (w @ rest) = rest" using assms(1) d by (induction w) auto
qed

lemma py_split_word_append:
  assumes "w \<noteq> []" "\<forall>c\<in>set w. \<not> isspace c" "rest = [] \<or> isspace (hd rest)"
  shows "py_split (w @ rest) = w # py_split rest"
proof -
  obtain c w' where w: "w = c # w'" using assms(1) by (cases w) auto
  have ns: "\<forall>c\<in>set w'. \<not> isspace c" and c: "\<not> isspace c" using assms(2) w by auto
  show ?thesis
    using py_split_word[OF ns assms(3)] c unfolding w by simp
qed

lemma py_split_words: "\<forall>w\<in>set (py_split s). word w"
proof (induction s rule: py_split.induct)
  case 1
  show ?case by simp
next
  case (2 c cs)
  show ?case
  proof (cases "isspace c")
    case True
    with 2 show ?thesis by simp
  next
    case False
    have "word (c # takeWhile (\<lambda>x. \<not> isspace x) cs)"
      using False by (auto simp: word_def dest: set_takeWhileD)
    with False 2 show ?thesis by simp
  qed
qed

lemma py_split_join:
  "\<forall>w\<in>set ws. word w \<Longrightarrow> py_split (py_join [32] ws) = ws"
proof (induction "[32::int]" ws rule: py_join.induct)
  case 1
  show ?case by simp
next
  case (2 w)
  then have "word w" by simp
  then show ?case using py_split_word_append[of w "[]"] by (simp add: word_def)
next
  case (3 w v ws)
  then have w: "word w" and ih: "py_split (py_join [32] (v # ws)) = v # ws" by simp_all
  have "py_split (w @ ([32] @ py_join [32] (v # ws))) = w # py_split ([32] @ py_join [32] (v # ws))"
    using w by (intro py_split_word_append) (simp_all add: word_def)
  then show ?case using ih by simp
qed

lemma py_upper_Cons: "py_upper (c # s) = upper_cp c @ py_upper s"
  by (simp add: py_upper_def)

lemma py_upper_append: "py_upper (s @ t) = py_upper s @ py_upper t"
  by (simp add: py_upper_def)

lemma py_upper_space: "py_upper [32] = [32]"
  by (simp add: py_upper_def upper_cp_ascii)

lemma py_upper_join: "py_upper (py_join [32] ws) = py_join [32] (map py_upper ws)"
  by (induction "[32::int]" ws rule: py_join.induct)
     (simp_all add: py_upper_def upper_cp_ascii)

lemma py_upper_unchanged: "\<forall>d\<in>set s. upper_cp d = [d] \<Longrightarrow> py_upper s = s"
  by (induction s) (simp_all add: py_upper_def)

lemma py_upper_idem: "py_upper (py_upper w) = py_upper w"
proof (induction w)
  case Nil
  show ?case by (simp add: py_upper_def)
next
  case (Cons c w)
  have "py_upper (upper_cp c) = upper_cp c"
    by (rule py_upper_unchanged) (auto dest: upper_cp_fixed)
  with Cons show ?case by (simp add: py_upper_Cons py_upper_append)
qed

lemma word_upper: "word w \<Longrightarrow> word (py_upper w)"
proof (induction w)
  case Nil
  then show ?case by (simp add: word_def)
next
  case (Cons c w)
  then have c: "\<not> isspace c" and w: "\<forall>x\<in>set w. \<not> isspace x" by (simp_all add: word_def)
  have "\<forall>d\<in>set (py_upper w). \<not> isspace d"
    using w upper_cp_nonspace(2) by (auto simp: py_upper_def)
  with upper_cp_nonspace[OF c] show ?case by (auto simp: word_def py_upper_Cons)
qed

lemma normalize_text_tokens:
  "normalize_text s = py_join [32] (map py_upper (py_split s))"
  by (simp add: normalize_text_def collapse_strip py_upper_join)

lemma normalize_text_idem: "normalize_text (normalize_text s) = normalize_text s"
proof -
  let ?ws = "map py_upper (py_split s)"
  have words: "\<forall>w\<in>set ?ws. word w" using py_split_words[of s] by (auto intro: word_upper)
  have "normalize_text (normalize_text s) = py_join [32] (map py_upper (py_split (py_join [32] ?ws)))"
    by (simp only: normalize_text_tokens)
  also have "\<dots> = py_join [32] (map py_upper ?ws)"
    using py_split_join[OF words] by simp
  also have "\<dots> = py_join [32] ?ws" by (simp add: py_upper_idem comp_def)
  finally show ?thesis by (simp only: normalize_text_tokens)
qed

lemma astype_str_Text: "\<exists>t. astype_str c = Text t"
  by (cases c) simp_all

lemma normalize_name_map:
  "normalize_name s = map (\<lambda>c. str_method normalize_text (astype_str c)) s"
proof -
  have "str_method py_upper (str_method (re_sub_ws (lit '' '')) (str_method py_strip (fillna [] (astype_str c))))
        = str_method normalize_text (astype_str c)" for c
    by (cases c) (simp_all add: normalize_text_def)
  then show ?thesis by (simp add: normalize_name_def Let_def)
qed

lemma normalize_name_idem: "normalize_name (normalize_name s) = normalize_name s"
proof -
  have "str_method normalize_text (astype_str (str_method normalize_text (astype_str c)))
        = str_method normalize_text (astype_str c)" for c
    by (cases c) (simp_all add: normalize_text_idem)
  then show ?thesis by (simp add: normalize_name_map)
qed

lemma normalize_name_Text: "normalize_name [Text s] = [Text (normalize_text s)]"
  by (simp add: normalize_name_map)

lemma normalize_blank:
  "\<forall>c\<in>set s. isspace c \<Longrightarrow> normalize_name [Text s] = [Text []]"
  by (simp add: normalize_name_Text normalize_text_tokens py_split_all_space)

section \<open>Frames: columns, masks and selected rows\<close>

lemma index_of_None: "index_of x ys = None \<longleftrightarrow> x \<notin> set ys"
  by (induction ys) auto

lemma getitem_name_column:
  assumes "NAME_COL \<in> set (columns df)"
  shows "getitem df NAME_COL = Inr (name_column df)"
proof -
  from assms have "index_of NAME_COL (columns df) \<noteq> None" by (simp add: index_of_None)
  then obtain i where "index_of NAME_COL (columns df) = Some i" by auto
  then show ?thesis by (simp add: getitem_def name_column_def name_pos_def)
qed

lemma getitem_missing:
  "NAME_COL \<notin> set (columns df) \<Longrightarrow> getitem df NAME_COL = Inl (KeyError NAME_COL)"
  by (simp add: getitem_def index_of_None[THEN iffD2])

lemma row_key_eq: "row_key df r = str_method normalize_text (astype_str (cell_at r (name_pos df)))"
  by (simp add: row_key_def normalize_name_map)

lemma normalize_name_column:
  "normalize_name (name_column df) = map (row_key df) (rows df)"
  by (simp add: name_column_def normalize_name_map row_key_eq)

lemma key_set_name_column: "key_set (normalize_name (name_column df)) = keys df"
  by (auto simp: key_set_def keys_def normalize_name_column)

lemma zip_map_filter: "map fst (filter snd (zip xs (map f xs))) = filter f xs"
  by (induction xs) simp_all

lemma compare_masks_rows:
  "compare_masks (name_column df_a) (name_column df_b) =
     (map (\<lambda>r. row_key df_b r \<in> keys df_b - keys df_a) (rows df_b),
      map (\<lambda>r. row_key df_a r \<in> keys df_a - keys df_b) (rows df_a))"
  unfolding compare_masks_def Let_def key_set_name_column
  by (simp add: isin_def normalize_name_column)

lemma compare_result:
  assumes "NAME_COL \<in> set (columns df_a)" and "NAME_COL \<in> set (columns df_b)"
  shows "compare df_a df_b =
     Inr (df_b\<lparr>rows := filter (\<lambda>r. row_key df_b r \<in> keys df_b - keys df_a) (rows df_b)\<rparr>,
          df_a\<lparr>rows := filter (\<lambda>r. row_key df_a r \<in> keys df_a - keys df_b) (rows df_a)\<rparr>)"
  by (simp add: compare_def getitem_name_column[OF assms(1)] getitem_name_column[OF assms(2)]
      compare_masks_rows loc_def zip_map_filter)

lemma compare_by_masks:
  assumes "getitem df_a NAME_COL = Inr col_a" and "getitem df_b NAME_COL = Inr col_b"
  shows "compare df_a df_b =
     Inr (loc df_b (fst (compare_masks col_a col_b)), loc df_a (snd (compare_masks col_a col_b)))"
  using assms by (simp add: compare_def split_beta)

lemma length_compare_masks:
  "length (fst (compare_masks col_a col_b)) = length col_b"
  "length (snd (compare_masks col_a col_b)) = length col_a"
  by (simp_all add: compare_masks_def Let_def isin_def normalize_name_map)

lemma filter_nth_Cons:
  "filter (\<lambda>i. (b # m) ! i) [0..<Suc (length m)] =
     (if b then [0] else []) @ map Suc (filter (\<lambda>i. m ! i) [0..<length m])"
proof -
  have "[0..<Suc (length m)] = 0 # map Suc [0..<length m]"
    by (simp add: upt_conv_Cons map_Suc_upt del: upt_Suc)
  then show ?thesis by (simp add: filter_map comp_def del: upt_Suc)
qed

lemma loc_positions:
  "length xs = length m \<Longrightarrow>
   map fst (filter snd (zip xs m)) = map (\<lambda>i. xs ! i) (positions m)"
proof (induction xs m rule: list_induct2)
  case Nil
  show ?case by (simp add: positions_def)
next
  case (Cons x xs b m)
  have "positions (b # m) = (if b then [0] else []) @ map Suc (positions m)"
    unfolding positions_def using filter_nth_Cons[of b m] by simp
  with Cons show ?case by (simp add: comp_def)
qed

lemma positions_sorted: "sorted_wrt (<) (positions m)"
  unfolding positions_def by (rule sorted_wrt_filter) simp

lemma positions_bound: "i \<in> set (positions m) \<Longrightarrow> i < length m"
  by (simp add: positions_def)

lemma count_list_filter:
  "count_list (filter P xs) x = (if P x then count_list xs x else 0)"
  by (induction xs) auto

lemma length_filter_partition:
  "length (filter (\<lambda>x. P x \<and> \<not> Q x) xs) + length (filter (\<lambda>x. P x \<and> Q x) xs)
     = length (filter P xs)"
  by (induction xs) auto

lemma add_serial_number_fresh:
  assumes "SERIAL_COL \<notin> set (columns df)"
  shows "\<exists>df_out. add_serial_number df = Inr df_out \<and>
           columns df_out = SERIAL_COL # columns df \<and>
           length (rows df_out) = length (rows df) \<and>
           map hd (rows df_out) = map IntV [1 .. int (length (rows df))] \<and>
           map tl (rows df_out) = rows df"
proof -
  let ?vals = "map IntV [1 .. int (length (rows df))]"
  have len: "length ?vals = length (rows df)" by simp
  have h: "map hd (map (\<lambda>(v, r). v # r) (zip vs rs)) = vs"
    and t: "map tl (map (\<lambda>(v, r). v # r) (zip vs rs)) = rs"
    if "length vs = length rs" for vs :: "cell list" and rs :: "cell list list"
    using that by (induction vs rs rule: list_induct2) simp_all
  show ?thesis
    using assms len h[OF len] t[OF len]
    by (simp add: add_serial_number_def reset_index_drop_def insert0_def)
qed

section \<open>The claims\<close>

text \<open>
  C1. When both frames have the name column, the compare block returns the rows of the new
  frame whose normalized key lies in \<open>keys new - keys old\<close> as added, and the rows of
  the old frame whose normalized key lies in \<open>keys old - keys new\<close> as removed. Every
  row with such a key is kept, as often as it occurs in its frame.
\<close>

theorem diff_rows_by_key_set_difference:
  assumes "NAME_COL \<in> set (columns df_a)" and "NAME_COL \<in> set (columns df_b)"
  shows "\<exists>new_rows_b removed_rows_a.
     compare df_a df_b = Inr (new_rows_b, removed_rows_a) \<and>
     rows new_rows_b = filter (\<lambda>r. row_key df_b r \<in> keys df_b - keys df_a) (rows df_b) \<and>
     rows removed_rows_a = filter (\<lambda>r. row_key df_a r \<in> keys df_a - keys df_b) (rows df_a) \<and>
     (\<forall>r. count_list (rows new_rows_b) r =
        (if row_key df_b r \<in> keys df_b - keys df_a then count_list (rows df_b) r else 0)) \<and>
     (\<forall>r. count_list (rows removed_rows_a) r =
        (if row_key df_a r \<in> keys df_a - keys df_b then count_list (rows df_a) r else 0))"
  by (simp add: compare_result[OF assms] count_list_filter)

theorem diff_rows_by_key_set_difference_witness:
  "NAME_COL \<in> set (columns \<lparr>columns = [NAME_COL], rows = [[Text (lit ''Alice Tan'')], [Text (lit ''Bob Lee'')]]\<rparr>) \<and>
   NAME_COL \<in> set (columns \<lparr>columns = [NAME_COL],
       rows = [[Text (lit ''ALICE TAN'')], [Text (lit ''Carol Ng'')], [Text (lit ''carol  ng '')]]\<rparr>) \<and>
   (\<exists>new_rows_b removed_rows_a.
     compare \<lparr>columns = [NAME_COL], rows = [[Text (lit ''Alice Tan'')], [Text (lit ''Bob Lee'')]]\<rparr>
             \<lparr>columns = [NAME_COL],
               rows = [[Text (lit ''ALICE TAN'')], [Text (lit ''Carol Ng'')], [Text (lit ''carol  ng '')]]\<rparr>
       = Inr (new_rows_b, removed_rows_a) \<and>
     rows new_rows_b = [[Text (lit ''Carol Ng'')], [Text (lit ''carol  ng '')]] \<and>
     rows removed_rows_a = [[Text (lit ''Bob Lee'')]] \<and>
     count_list (rows new_rows_b) [Text (lit ''Carol Ng'')] = 1)"
proof -
  let ?a = "\<lparr>columns = [NAME_COL], rows = [[Text (lit ''Alice Tan'')], [Text (lit ''Bob Lee'')]]\<rparr>"
  let ?b = "\<lparr>columns = [NAME_COL],
       rows = [[Text (lit ''ALICE TAN'')], [Text (lit ''Carol Ng'')], [Text (lit ''carol  ng '')]]\<rparr>"
  have ha: "NAME_COL \<in> set (columns ?a)" and hb: "NAME_COL \<in> set (columns ?b)" by simp_all
  have e: "compare ?a ?b = Inr (\<lparr>columns = [NAME_COL],
              rows = [[Text (lit ''Carol Ng'')], [Text (lit ''carol  ng '')]]\<rparr>,
            \<lparr>columns = [NAME_COL], rows = [[Text (lit ''Bob Lee'')]]\<rparr>)"
    by code_simp
  from diff_rows_by_key_set_difference[OF ha hb] e ha hb show ?thesis
    by (simp add: lit_def)
qed

text \<open>
  C3. When a frame lacks the column \<open>Full Name As Per NRIC\<close>, the script stops with an
  error message and yields no workbook. The message is the fixed heading followed by one
  line for each frame that lacks the column: it names \<open>Excel A\<close> exactly when frame A
  lacks the column and \<open>Excel B\<close> exactly when frame B lacks it.
\<close>

theorem missing_column_stops:
  assumes "NAME_COL \<notin> set (columns df_a) \<or> NAME_COL \<notin> set (columns df_b)"
  shows "\<exists>msg.
     pipeline df_a df_b = Inl (Stop msg) \<and>
     msg = ''Cannot compare because required column is missing:'' @ [CHR 0x0A, CHR 0x0A] @
       (if NAME_COL \<in> set (columns df_b)
        then ''- Excel A missing column: '' @ [CHR 0x27] @ ''Full Name As Per NRIC'' @ [CHR 0x27]
        else if NAME_COL \<in> set (columns df_a)
        then ''- Excel B missing column: '' @ [CHR 0x27] @ ''Full Name As Per NRIC'' @ [CHR 0x27]
        else ''- Excel A missing column: '' @ [CHR 0x27] @ ''Full Name As Per NRIC'' @ [CHR 0x27]
             @ [CHR 0x0A] @
             ''- Excel B missing column: '' @ [CHR 0x27] @ ''Full Name As Per NRIC'' @ [CHR 0x27]) \<and>
     (sublist ''Excel A'' msg \<longleftrightarrow> NAME_COL \<notin> set (columns df_a)) \<and>
     (sublist ''Excel B'' msg \<longleftrightarrow> NAME_COL \<notin> set (columns df_b)) \<and>
     (missing_a \<in> set (missing df_a df_b) \<longleftrightarrow> NAME_COL \<notin> set (columns df_a)) \<and>
     (missing_b \<in> set (missing df_a df_b) \<longleftrightarrow> NAME_COL \<notin> set (columns df_b)) \<and>
     set (missing df_a df_b) \<subseteq> {missing_a, missing_b} \<and>
     (\<forall>wb. pipeline df_a df_b \<noteq> Inr wb)"
proof -
  let ?ma = "''Cannot compare because required column is missing:'' @ [CHR 0x0A, CHR 0x0A] @
      ''- Excel A missing column: '' @ [CHR 0x27] @ ''Full Name As Per NRIC'' @ [CHR 0x27]"
  let ?mb = "''Cannot compare because required column is missing:'' @ [CHR 0x0A, CHR 0x0A] @
      ''- Excel B missing column: '' @ [CHR 0x27] @ ''Full Name As Per NRIC'' @ [CHR 0x27]"
  let ?mab = "''Cannot compare because required column is missing:'' @ [CHR 0x0A, CHR 0x0A] @
      ''- Excel A missing column: '' @ [CHR 0x27] @ ''Full Name As Per NRIC'' @ [CHR 0x27]
      @ [CHR 0x0A] @
      ''- Excel B missing column: '' @ [CHR 0x27] @ ''Full Name As Per NRIC'' @ [CHR 0x27]"
  have sa: "stop_message [missing_a] = ?ma" by code_simp
  have sb: "stop_message [missing_b] = ?mb" by code_simp
  have sab: "stop_message [missing_a, missing_b] = ?mab" by code_simp
  have a1: "sublist ''Excel A'' ?ma" by code_simp
  have a2: "\<not> sublist ''Excel B'' ?ma" by code_simp
  have b1: "\<not> sublist ''Excel A'' ?mb" by code_simp
  have b2: "sublist ''Excel B'' ?mb" by code_simp
  have ab1: "sublist ''Excel A'' ?mab" by code_simp
  have ab2: "sublist ''Excel B'' ?mab" by code_simp
  have ne: "missing_a \<noteq> missing_b" by (simp add: missing_a_def missing_b_def)
  have p: "pipeline df_a df_b = Inl (Stop (stop_message (missing df_a df_b)))"
    using assms by (auto simp: pipeline_def missing_def)
  consider (a) "NAME_COL \<notin> set (columns df_a)" "NAME_COL \<in> set (columns df_b)"
    | (b) "NAME_COL \<in> set (columns df_a)" "NAME_COL \<notin> set (columns df_b)"
    | (ab) "NAME_COL \<notin> set (columns df_a)" "NAME_COL \<notin> set (columns df_b)"
    using assms by blast
  then show ?thesis
  proof cases
    case a
    then have m: "missing df_a df_b = [missing_a]" by (simp add: missing_def)
    have "pipeline df_a df_b = Inl (Stop ?ma)" unfolding p m sa by (rule refl)
    with a a1 a2 ne show ?thesis by (simp add: m)
  next
    case b
    then have m: "missing df_a df_b = [missing_b]" by (simp add: missing_def)
    have "pipeline df_a df_b = Inl (Stop ?mb)" unfolding p m sb by (rule refl)
    with b b1 b2 ne show ?thesis by (simp add: m)
  next
    case ab
    then have m: "missing df_a df_b = [missing_a, missing_b]" by (simp add: missing_def)
    have "pipeline df_a df_b = Inl (Stop ?mab)" unfolding p m sab by (rule refl)
    with ab ab1 ab2 ne show ?thesis by (simp add: m)
  qed
qed

theorem missing_column_stops_witness:
  "NAME_COL \<notin> set (columns no_name) \<and>
   NAME_COL \<in> set (columns new_list) \<and>
   pipeline no_name new_list =
     Inl (Stop (''Cannot compare because required column is missing:'' @ [CHR 0x0A, CHR 0x0A] @
                ''- Excel A missing column: '' @ [CHR 0x27] @ ''Full Name As Per NRIC'' @ [CHR 0x27])) \<and>
   missing no_name new_list = [missing_a]"
proof -
  have h: "NAME_COL \<notin> set (columns no_name)" by (simp add: NAME_COL_def)
  have hb: "NAME_COL \<in> set (columns new_list)" by simp
  from h have "NAME_COL \<notin> set (columns no_name) \<or> NAME_COL \<notin> set (columns new_list)"
    by (rule disjI1)
  from missing_column_stops[OF this] h hb show ?thesis by (auto simp: missing_def)
qed

text \<open>
  C4. A row whose normalized name is the empty text is in neither result, its position is
  false in both masks, and the empty text is in no key set and in no difference of key
  sets.
\<close>

theorem empty_key_never_classified:
  assumes "NAME_COL \<in> set (columns df_a)" and "NAME_COL \<in> set (columns df_b)"
  shows "\<exists>new_rows_b removed_rows_a.
     compare df_a df_b = Inr (new_rows_b, removed_rows_a) \<and>
     (\<forall>r\<in>set (rows new_rows_b). row_key df_b r \<noteq> Text []) \<and>
     (\<forall>r\<in>set (rows removed_rows_a). row_key df_a r \<noteq> Text []) \<and>
     (\<forall>i<length (rows df_b). row_key df_b (rows df_b ! i) = Text [] \<longrightarrow>
        \<not> fst (compare_masks (name_column df_a) (name_column df_b)) ! i) \<and>
     (\<forall>i<length (rows df_a). row_key df_a (rows df_a ! i) = Text [] \<longrightarrow>
        \<not> snd (compare_masks (name_column df_a) (name_column df_b)) ! i) \<and>
     Text [] \<notin> key_set (normalize_name (name_column df_a)) \<and>
     Text [] \<notin> key_set (normalize_name (name_column df_b)) \<and>
     Text [] \<notin> keys df_b - keys df_a \<and> Text [] \<notin> keys df_a - keys df_b"
proof -
  have k: "Text [] \<notin> keys df" for df by (simp add: keys_def)
  have "\<not> fst (compare_masks (name_column df_a) (name_column df_b)) ! i"
    if "i < length (rows df_b)" "row_key df_b (rows df_b ! i) = Text []" for i
    using that k[of df_b] by (simp add: compare_masks_rows)
  moreover have "\<not> snd (compare_masks (name_column df_a) (name_column df_b)) ! i"
    if "i < length (rows df_a)" "row_key df_a (rows df_a ! i) = Text []" for i
    using that k[of df_a] by (simp add: compare_masks_rows)
  moreover have "row_key df_b r \<noteq> Text []"
    if "r \<in> set (filter (\<lambda>r. row_key df_b r \<in> keys df_b - keys df_a) (rows df_b))" for r
    using that k[of df_b] by auto
  moreover have "row_key df_a r \<noteq> Text []"
    if "r \<in> set (filter (\<lambda>r. row_key df_a r \<in> keys df_a - keys df_b) (rows df_a))" for r
    using that k[of df_a] by auto
  ultimately show ?thesis
    using k by (simp add: compare_result[OF assms] key_set_name_column)
qed

theorem empty_key_never_classified_witness:
  "NAME_COL \<in> set (columns old_blank) \<and> NAME_COL \<in> set (columns new_blank) \<and>
   row_key new_blank (rows new_blank ! 1) = Text [] \<and>
   row_key old_blank (rows old_blank ! 1) = Text [] \<and>
   compare old_blank new_blank =
     Inr (\<lparr>columns = [NAME_COL, ''Dept''],
            rows = [[Text (lit ''Dan Ong''), Text (lit ''HR'')], [Text (lit ''Eve Lim''), Text (lit ''IT'')]]\<rparr>,
          \<lparr>columns = [NAME_COL, ''Dept''], rows = [[Text (lit ''Bob Lee''), Text (lit ''IT'')]]\<rparr>) \<and>
   \<not> fst (compare_masks (name_column old_blank) (name_column new_blank)) ! 1 \<and>
   \<not> snd (compare_masks (name_column old_blank) (name_column new_blank)) ! 1"
proof -
  have ha: "NAME_COL \<in> set (columns old_blank)" and hb: "NAME_COL \<in> set (columns new_blank)"
    by simp_all
  have kb: "row_key new_blank (rows new_blank ! 1) = Text []" by code_simp
  have ka: "row_key old_blank (rows old_blank ! 1) = Text []" by code_simp
  have e: "compare old_blank new_blank =
     Inr (\<lparr>columns = [NAME_COL, ''Dept''],
            rows = [[Text (lit ''Dan Ong''), Text (lit ''HR'')], [Text (lit ''Eve Lim''), Text (lit ''IT'')]]\<rparr>,
          \<lparr>columns = [NAME_COL, ''Dept''], rows = [[Text (lit ''Bob Lee''), Text (lit ''IT'')]]\<rparr>)"
    by code_simp
  from empty_key_never_classified[OF ha hb]
  have "\<forall>i<length (rows new_blank). row_key new_blank (rows new_blank ! i) = Text [] \<longrightarrow>
          \<not> fst (compare_masks (name_column old_blank) (name_column new_blank)) ! i"
    and "\<forall>i<length (rows old_blank). row_key old_blank (rows old_blank ! i) = Text [] \<longrightarrow>
          \<not> snd (compare_masks (name_column old_blank) (name_column new_blank)) ! i"
    by blast+
  then have "\<not> fst (compare_masks (name_column old_blank) (name_column new_blank)) ! 1"
    and "\<not> snd (compare_masks (name_column old_blank) (name_column new_blank)) ! 1"
    using ka kb by simp_all
  with ha hb ka kb e show ?thesis by blast
qed

text \<open>
  C7. Each result keeps the order of its source: the added rows are a subsequence of the
  rows of the new frame and the removed rows a subsequence of the rows of the old frame,
  each being the rows of its source at strictly increasing positions.
\<close>

theorem results_keep_source_order:
  assumes "NAME_COL \<in> set (columns df_a)" and "NAME_COL \<in> set (columns df_b)"
  shows "\<exists>new_rows_b removed_rows_a.
     compare df_a df_b = Inr (new_rows_b, removed_rows_a) \<and>
     subseq (rows new_rows_b) (rows df_b) \<and>
     subseq (rows removed_rows_a) (rows df_a) \<and>
     (\<exists>ps. sorted_wrt (<) ps \<and> (\<forall>i\<in>set ps. i < length (rows df_b)) \<and>
           rows new_rows_b = map (\<lambda>i. rows df_b ! i) ps) \<and>
     (\<exists>ps. sorted_wrt (<) ps \<and> (\<forall>i\<in>set ps. i < length (rows df_a)) \<and>
           rows removed_rows_a = map (\<lambda>i. rows df_a ! i) ps)"
proof -
  let ?m = "compare_masks (name_column df_a) (name_column df_b)"
  have c: "compare df_a df_b = Inr (loc df_b (fst ?m), loc df_a (snd ?m))"
    using assms by (intro compare_by_masks getitem_name_column)
  have lb: "length (rows df_b) = length (fst ?m)" and la: "length (rows df_a) = length (snd ?m)"
    by (simp_all add: length_compare_masks name_column_def)
  have pb: "rows (loc df_b (fst ?m)) = map (\<lambda>i. rows df_b ! i) (positions (fst ?m))"
    using loc_positions[OF lb] by (simp add: loc_def)
  have pa: "rows (loc df_a (snd ?m)) = map (\<lambda>i. rows df_a ! i) (positions (snd ?m))"
    using loc_positions[OF la] by (simp add: loc_def)
  have sb: "subseq (rows (loc df_b (fst ?m))) (rows df_b)"
    by (simp add: compare_masks_rows loc_def zip_map_filter)
  have sa: "subseq (rows (loc df_a (snd ?m))) (rows df_a)"
    by (simp add: compare_masks_rows loc_def zip_map_filter)
  have qb: "\<exists>ps. sorted_wrt (<) ps \<and> (\<forall>i\<in>set ps. i < length (rows df_b)) \<and>
           rows (loc df_b (fst ?m)) = map (\<lambda>i. rows df_b ! i) ps"
    using pb positions_sorted[of "fst ?m"] positions_bound[of _ "fst ?m"] lb by metis
  have qa: "\<exists>ps. sorted_wrt (<) ps \<and> (\<forall>i\<in>set ps. i < length (rows df_a)) \<and>
           rows (loc df_a (snd ?m)) = map (\<lambda>i. rows df_a ! i) ps"
    using pa positions_sorted[of "snd ?m"] positions_bound[of _ "snd ?m"] la by metis
  from c sb sa qb qa show ?thesis by blast
qed

theorem results_keep_source_order_witness:
  "NAME_COL \<in> set (columns old_blank) \<and> NAME_COL \<in> set (columns new_blank) \<and>
   (\<exists>new_rows_b removed_rows_a.
      compare old_blank new_blank = Inr (new_rows_b, removed_rows_a) \<and>
      rows new_rows_b = [rows new_blank ! 0, rows new_blank ! 3] \<and>
      rows removed_rows_a = [rows old_blank ! 2] \<and>
      subseq (rows new_rows_b) (rows new_blank) \<and>
      subseq (rows removed_rows_a) (rows old_blank))"
proof -
  have ha: "NAME_COL \<in> set (columns old_blank)" and hb: "NAME_COL \<in> set (columns new_blank)"
    by simp_all
  have e: "compare old_blank new_blank =
     Inr (\<lparr>columns = [NAME_COL, ''Dept''],
            rows = [[Text (lit ''Dan Ong''), Text (lit ''HR'')], [Text (lit ''Eve Lim''), Text (lit ''IT'')]]\<rparr>,
          \<lparr>columns = [NAME_COL, ''Dept''], rows = [[Text (lit ''Bob Lee''), Text (lit ''IT'')]]\<rparr>)"
    by code_simp
  from results_keep_source_order[OF ha hb] e ha hb show ?thesis by simp
qed

text \<open>
  C9. Among the rows of the new frame with a non-empty normalized key, the added rows and
  the rows whose key is in the key set of the old frame make up all of them, so the two
  counts add up; likewise for the removed rows among the rows of the old frame.
\<close>

theorem added_and_unchanged_add_up:
  assumes "NAME_COL \<in> set (columns df_a)" and "NAME_COL \<in> set (columns df_b)"
  shows "\<exists>new_rows_b removed_rows_a.
     compare df_a df_b = Inr (new_rows_b, removed_rows_a) \<and>
     length (rows new_rows_b) +
       length (filter (\<lambda>r. row_key df_b r \<noteq> Text [] \<and> row_key df_b r \<in> keys df_a) (rows df_b))
       = length (filter (\<lambda>r. row_key df_b r \<noteq> Text []) (rows df_b)) \<and>
     length (rows removed_rows_a) +
       length (filter (\<lambda>r. row_key df_a r \<noteq> Text [] \<and> row_key df_a r \<in> keys df_b) (rows df_a))
       = length (filter (\<lambda>r. row_key df_a r \<noteq> Text []) (rows df_a))"
proof -
  have f: "filter (\<lambda>r. row_key df r \<in> keys df - keys df') (rows df)
         = filter (\<lambda>r. row_key df r \<noteq> Text [] \<and> \<not> row_key df r \<in> keys df') (rows df)"
    for df df'
    by (rule filter_cong) (auto simp: keys_def)
  have nb: "length (filter (\<lambda>r. row_key df_b r \<in> keys df_b - keys df_a) (rows df_b)) +
       length (filter (\<lambda>r. row_key df_b r \<noteq> Text [] \<and> row_key df_b r \<in> keys df_a) (rows df_b))
       = length (filter (\<lambda>r. row_key df_b r \<noteq> Text []) (rows df_b))"
    unfolding f by (rule length_filter_partition)
  have na: "length (filter (\<lambda>r. row_key df_a r \<in> keys df_a - keys df_b) (rows df_a)) +
       length (filter (\<lambda>r. row_key df_a r \<noteq> Text [] \<and> row_key df_a r \<in> keys df_b) (rows df_a))
       = length (filter (\<lambda>r. row_key df_a r \<noteq> Text []) (rows df_a))"
    unfolding f by (rule length_filter_partition)
  show ?thesis
    using nb na by (simp add: compare_result[OF assms])
qed

theorem added_and_unchanged_add_up_witness:
  "NAME_COL \<in> set (columns old_blank) \<and> NAME_COL \<in> set (columns new_blank) \<and>
   (\<exists>new_rows_b removed_rows_a.
      compare old_blank new_blank = Inr (new_rows_b, removed_rows_a) \<and>
      length (rows new_rows_b) = 2 \<and>
      length (filter (\<lambda>r. row_key new_blank r \<noteq> Text [] \<and> row_key new_blank r \<in> keys old_blank)
                (rows new_blank)) = 1 \<and>
      length (filter (\<lambda>r. row_key new_blank r \<noteq> Text []) (rows new_blank)) = 3)"
proof -
  have ha: "NAME_COL \<in> set (columns old_blank)" and hb: "NAME_COL \<in> set (columns new_blank)"
    by simp_all
  have e: "compare old_blank new_blank =
     Inr (\<lparr>columns = [NAME_COL, ''Dept''],
            rows = [[Text (lit ''Dan Ong''), Text (lit ''HR'')], [Text (lit ''Eve Lim''), Text (lit ''IT'')]]\<rparr>,
          \<lparr>columns = [NAME_COL, ''Dept''], rows = [[Text (lit ''Bob Lee''), Text (lit ''IT'')]]\<rparr>)"
    by code_simp
  have n: "length (filter (\<lambda>r. row_key new_blank r \<noteq> Text []) (rows new_blank)) = 3"
    by code_simp
  from added_and_unchanged_add_up[OF ha hb] e n ha hb show ?thesis by simp
qed

text \<open>
  C10. The classification reads the name column only. Two runs whose old frames have the
  same name column and whose new frames have the same name column compute the same two
  masks, so they select the same row positions as added and the same row positions as
  removed, whatever the other columns hold.
\<close>

theorem classification_reads_name_column_only:
  assumes "getitem df_a NAME_COL = Inr col_a" and "getitem df_a' NAME_COL = Inr col_a"
    and "getitem df_b NAME_COL = Inr col_b" and "getitem df_b' NAME_COL = Inr col_b"
  shows "compare df_a df_b =
           Inr (loc df_b (fst (compare_masks col_a col_b)), loc df_a (snd (compare_masks col_a col_b))) \<and>
         compare df_a' df_b' =
           Inr (loc df_b' (fst (compare_masks col_a col_b)), loc df_a' (snd (compare_masks col_a col_b))) \<and>
         rows (loc df_b (fst (compare_masks col_a col_b)))
           = map (\<lambda>i. rows df_b ! i) (positions (fst (compare_masks col_a col_b))) \<and>
         rows (loc df_b' (fst (compare_masks col_a col_b)))
           = map (\<lambda>i. rows df_b' ! i) (positions (fst (compare_masks col_a col_b))) \<and>
         rows (loc df_a (snd (compare_masks col_a col_b)))
           = map (\<lambda>i. rows df_a ! i) (positions (snd (compare_masks col_a col_b))) \<and>
         rows (loc df_a' (snd (compare_masks col_a col_b)))
           = map (\<lambda>i. rows df_a' ! i) (positions (snd (compare_masks col_a col_b)))"
proof -
  have len: "length (rows df) = length col" if "getitem df NAME_COL = Inr col" for df col
    using that by (auto simp: getitem_def split: option.splits)
  have sel: "rows (loc df m) = map (\<lambda>i. rows df ! i) (positions m)"
    if "length (rows df) = length m" for df m
    using loc_positions[OF that] by (simp add: loc_def)
  have "compare df_a df_b =
      Inr (loc df_b (fst (compare_masks col_a col_b)), loc df_a (snd (compare_masks col_a col_b)))"
    using assms(1,3) by (rule compare_by_masks)
  moreover have "compare df_a' df_b' =
      Inr (loc df_b' (fst (compare_masks col_a col_b)), loc df_a' (snd (compare_masks col_a col_b)))"
    using assms(2,4) by (rule compare_by_masks)
  moreover have "rows (loc df_b (fst (compare_masks col_a col_b)))
      = map (\<lambda>i. rows df_b ! i) (positions (fst (compare_masks col_a col_b)))"
    by (rule sel) (simp add: len[OF assms(3)] length_compare_masks)
  moreover have "rows (loc df_b' (fst (compare_masks col_a col_b)))
      = map (\<lambda>i. rows df_b' ! i) (positions (fst (compare_masks col_a col_b)))"
    by (rule sel) (simp add: len[OF assms(4)] length_compare_masks)
  moreover have "rows (loc df_a (snd (compare_masks col_a col_b)))
      = map (\<lambda>i. rows df_a ! i) (positions (snd (compare_masks col_a col_b)))"
    by (rule sel) (simp add: len[OF assms(1)] length_compare_masks)
  moreover have "rows (loc df_a' (snd (compare_masks col_a col_b)))
      = map (\<lambda>i. rows df_a' ! i) (positions (snd (compare_masks col_a col_b)))"
    by (rule sel) (simp add: len[OF assms(2)] length_compare_masks)
  ultimately show ?thesis by simp
qed

theorem classification_reads_name_column_only_witness:
  "getitem old_blank NAME_COL = Inr [Text (lit ''Alice Tan''), Text [], Text (lit ''Bob Lee'')] \<and>
   getitem old_other NAME_COL = Inr [Text (lit ''Alice Tan''), Text [], Text (lit ''Bob Lee'')] \<and>
   getitem new_blank NAME_COL
     = Inr [Text (lit ''Dan Ong''), Text (lit ''   ''), Text (lit ''alice  tan''), Text (lit ''Eve Lim'')] \<and>
   getitem new_other NAME_COL
     = Inr [Text (lit ''Dan Ong''), Text (lit ''   ''), Text (lit ''alice  tan''), Text (lit ''Eve Lim'')] \<and>
   compare_masks [Text (lit ''Alice Tan''), Text [], Text (lit ''Bob Lee'')]
                 [Text (lit ''Dan Ong''), Text (lit ''   ''), Text (lit ''alice  tan''), Text (lit ''Eve Lim'')]
     = ([True, False, False, True], [False, False, True]) \<and>
   compare old_blank new_blank =
     Inr (loc new_blank [True, False, False, True], loc old_blank [False, False, True]) \<and>
   compare old_other new_other =
     Inr (loc new_other [True, False, False, True], loc old_other [False, False, True]) \<and>
   rows (loc new_blank [True, False, False, True]) = [rows new_blank ! 0, rows new_blank ! 3] \<and>
   rows (loc new_other [True, False, False, True]) = [rows new_other ! 0, rows new_other ! 3]"
proof -
  let ?ca = "[Text (lit ''Alice Tan''), Text [], Text (lit ''Bob Lee'')]"
  let ?cb = "[Text (lit ''Dan Ong''), Text (lit ''   ''), Text (lit ''alice  tan''), Text (lit ''Eve Lim'')]"
  have g1: "getitem old_blank NAME_COL = Inr ?ca" by code_simp
  have g2: "getitem old_other NAME_COL = Inr ?ca" by code_simp
  have g3: "getitem new_blank NAME_COL = Inr ?cb" by code_simp
  have g4: "getitem new_other NAME_COL = Inr ?cb" by code_simp
  have m: "compare_masks ?ca ?cb = ([True, False, False, True], [False, False, True])"
    by code_simp
  have p: "positions [True, False, False, True] = [0, 3]" by code_simp
  from classification_reads_name_column_only[OF g1 g2 g3 g4] g1 g2 g3 g4 m p
  show ?thesis by simp
qed

text \<open>
  C5. Normalization of a text strips the whitespace at both ends, replaces every run of
  whitespace by one space and maps every code point to its upper case. The result is
  the words of the text (its maximal runs of code points that are not whitespace) in
  upper case, joined by single spaces. So \<open>"  John   Tan "\<close> gives \<open>"JOHN TAN"\<close>, and
  \<open>"john tan"\<close> and \<open>"JOHN TAN"\<close> have the same normalized form. The last example is
  beyond ASCII: a space, \<open>Jos\<close>, the e with acute accent (233), a no-break space (160),
  \<open>stra\<close>, the sharp s (223), \<open>e\<close> and an em space (8195) give \<open>JOS\<close>, the capital E with
  acute accent (201), one space and \<open>STRASSE\<close>, as Python does.
\<close>

theorem normalize_trims_collapses_uppercases:
  "normalize_name [Text s] = [Text (py_upper (re_sub_ws (lit '' '') (py_strip s)))] \<and>
   normalize_name [Text s] = [Text (py_join (lit '' '') (map py_upper (py_split s)))] \<and>
   normalize_name [Text (lit ''  John   Tan '')] = [Text (lit ''JOHN TAN'')] \<and>
   normalize_name [Text (lit ''john tan'')] = normalize_name [Text (lit ''JOHN TAN'')] \<and>
   normalize_name [Text [32, 74, 111, 115, 233, 160, 115, 116, 114, 97, 223, 101, 8195]]
     = [Text [74, 79, 83, 201, 32, 83, 84, 82, 65, 83, 83, 69]]"
proof -
  have "normalize_name [Text (lit ''  John   Tan '')] = [Text (lit ''JOHN TAN'')]"
    by code_simp
  moreover have "normalize_name [Text (lit ''john tan'')] = normalize_name [Text (lit ''JOHN TAN'')]"
    by code_simp
  moreover have "normalize_name [Text [32, 74, 111, 115, 233, 160, 115, 116, 114, 97, 223, 101, 8195]]
     = [Text [74, 79, 83, 201, 32, 83, 84, 82, 65, 83, 83, 69]]"
    by code_simp
  moreover have "normalize_name [Text s] = [Text (py_upper (re_sub_ws (lit '' '') (py_strip s)))]"
    by (simp add: normalize_name_Text normalize_text_def)
  moreover have "normalize_name [Text s] = [Text (py_join (lit '' '') (map py_upper (py_split s)))]"
    by (simp add: normalize_name_Text normalize_text_tokens)
  ultimately show ?thesis by (intro conjI)
qed

theorem normalize_trims_collapses_uppercases_witness:
  "normalize_name [Text (lit ('' '' @ [CHR 0x09] @ ''mei  ling'' @ [CHR 0x0A] @ ''tan ''))]
     = [Text (py_join (lit '' '') (map py_upper [lit ''mei'', lit ''ling'', lit ''tan'']))] \<and>
   normalize_name [Text (lit ('' '' @ [CHR 0x09] @ ''mei  ling'' @ [CHR 0x0A] @ ''tan ''))]
     = [Text (lit ''MEI LING TAN'')]"
proof -
  have sp: "py_split (lit ('' '' @ [CHR 0x09] @ ''mei  ling'' @ [CHR 0x0A] @ ''tan ''))
            = [lit ''mei'', lit ''ling'', lit ''tan'']"
    by code_simp
  have j: "py_join (lit '' '') (map py_upper [lit ''mei'', lit ''ling'', lit ''tan''])
           = lit ''MEI LING TAN''"
    by code_simp
  have a: "normalize_name [Text (lit ('' '' @ [CHR 0x09] @ ''mei  ling'' @ [CHR 0x0A] @ ''tan ''))]
     = [Text (py_join (lit '' '') (map py_upper
          (py_split (lit ('' '' @ [CHR 0x09] @ ''mei  ling'' @ [CHR 0x0A] @ ''tan '')))))]"
    using normalize_trims_collapses_uppercases
            [of "lit ('' '' @ [CHR 0x09] @ ''mei  ling'' @ [CHR 0x0A] @ ''tan '')"]
    by (elim conjE)
  show ?thesis unfolding a sp j by (intro conjI refl)
qed

text \<open>
  C6. Normalization is idempotent, on every series and so on every text: normalizing a
  normalized key gives the key back. Upper-casing cannot undo it, as what a code point
  becomes in upper case is left unchanged by upper-casing and is whitespace only if the
  code point was.
\<close>

theorem normalize_name_idempotent:
  "normalize_name (normalize_name s) = normalize_name s"
  by (rule normalize_name_idem)

theorem normalize_name_idempotent_witness:
  "normalize_name [Text (lit ''  John   Tan ''), NaN, IntV 42, Text [115, 116, 114, 97, 223, 101, 8195]]
     = [Text (lit ''JOHN TAN''), Text (lit ''NAN''), Text (lit ''42''), Text (lit ''STRASSE'')] \<and>
   normalize_name [Text (lit ''JOHN TAN''), Text (lit ''NAN''), Text (lit ''42''), Text (lit ''STRASSE'')]
     = [Text (lit ''JOHN TAN''), Text (lit ''NAN''), Text (lit ''42''), Text (lit ''STRASSE'')]"
proof -
  have e: "normalize_name [Text (lit ''  John   Tan ''), NaN, IntV 42, Text [115, 116, 114, 97, 223, 101, 8195]]
     = [Text (lit ''JOHN TAN''), Text (lit ''NAN''), Text (lit ''42''), Text (lit ''STRASSE'')]"
    by code_simp
  from normalize_name_idempotent
    [of "[Text (lit ''  John   Tan ''), NaN, IntV 42, Text [115, 116, 114, 97, 223, 101, 8195]]"]
  show ?thesis unfolding e by (intro conjI refl) 
qed

text \<open>
  C2, as the code has it. \<open>astype(str)\<close> runs before \<open>fillna("")\<close>: a missing name has
  already become the text \<open>nan\<close> (or \<open>None\<close>) when \<open>fillna\<close> looks for missing values, so
  \<open>fillna\<close> changes nothing and the missing name normalizes to \<open>NAN\<close> (or \<open>NONE\<close>), not
  to the empty text. A row of the old frame without a name is then reported as removed.
  The rest of the claim holds: a text of whitespace only normalizes to the empty text
  (\<open>normalize_blank\<close>).
\<close>

theorem missing_name_normalizes_to_nan_text:
  "normalize_name [NaN] = [Text (lit ''NAN'')] \<and>
   normalize_name [NoneV] = [Text (lit ''NONE'')] \<and>
   normalize_name [NaN] \<noteq> [Text []] \<and>
   map (fillna []) (map astype_str [NaN, NoneV]) = map astype_str [NaN, NoneV] \<and>
   compare old_missing_name new_list =
     Inr (\<lparr>columns = [NAME_COL], rows = [[Text (lit ''Carol Ng'')]]\<rparr>,
          \<lparr>columns = [NAME_COL, ''Dept''], rows = [[NaN, Text (lit ''IT'')]]\<rparr>)"
proof -
  have a: "normalize_name [NaN] = [Text (lit ''NAN'')]" by code_simp
  have b: "normalize_name [NoneV] = [Text (lit ''NONE'')]" by code_simp
  have c: "map (fillna []) (map astype_str [NaN, NoneV]) = map astype_str [NaN, NoneV]"
    by simp
  have d: "compare old_missing_name new_list =
     Inr (\<lparr>columns = [NAME_COL], rows = [[Text (lit ''Carol Ng'')]]\<rparr>,
          \<lparr>columns = [NAME_COL, ''Dept''], rows = [[NaN, Text (lit ''IT'')]]\<rparr>)"
    by code_simp
  from a b c d show ?thesis by (simp add: lit_def)
qed

text \<open>
  C8, as the code has it. \<open>add_serial_number\<close> inserts a column labelled \<open>S/N\<close>, and
  pandas refuses to insert a label the frame already has: for a frame with a column
  \<open>S/N\<close> of its own the function raises \<open>ValueError\<close> and no table is produced, and so
  does the whole run when the new roster has such a column. For a frame without that
  column the claim holds (\<open>add_serial_number_fresh\<close>).
\<close>

theorem serial_column_clash_raises:
  "add_serial_number with_serial = Inl (ValueError ''cannot insert S/N, already exists'') \<and>
   compare old_list with_serial =
     Inr (\<lparr>columns = [SERIAL_COL, NAME_COL], rows = [[IntV 2, Text (lit ''Carol Ng'')]]\<rparr>,
          \<lparr>columns = [NAME_COL], rows = [[Text (lit ''Bob Lee'')]]\<rparr>) \<and>
   pipeline old_list with_serial = Inl (ValueError ''cannot insert S/N, already exists'') \<and>
   pipeline old_list new_list =
     Inr [(''New_in_Excel_B'',
           \<lparr>columns = [SERIAL_COL, NAME_COL], rows = [[IntV 1, Text (lit ''Carol Ng'')]]\<rparr>),
          (''Removed_from_Excel_A'',
           \<lparr>columns = [SERIAL_COL, NAME_COL], rows = [[IntV 1, Text (lit ''Bob Lee'')]]\<rparr>)]"
proof -
  have a: "add_serial_number with_serial = Inl (ValueError ''cannot insert S/N, already exists'')"
    by code_simp
  have b: "compare old_list with_serial =
     Inr (\<lparr>columns = [SERIAL_COL, NAME_COL], rows = [[IntV 2, Text (lit ''Carol Ng'')]]\<rparr>,
          \<lparr>columns = [NAME_COL], rows = [[Text (lit ''Bob Lee'')]]\<rparr>)"
    by code_simp
  have c: "pipeline old_list with_serial = Inl (ValueError ''cannot insert S/N, already exists'')"
    by code_simp
  have d: "pipeline old_list new_list =
     Inr [(''New_in_Excel_B'',
           \<lparr>columns = [SERIAL_COL, NAME_COL], rows = [[IntV 1, Text (lit ''Carol Ng'')]]\<rparr>),
          (''Removed_from_Excel_A'',
           \<lparr>columns = [SERIAL_COL, NAME_COL], rows = [[IntV 1, Text (lit ''Bob Lee'')]]\<rparr>)]"
    by code_simp
  from a b c d show ?thesis by (simp add: lit_def)
qed

end
